theory Spec2Isabelle
  imports Complex_Main
begin

section \<open>The postal-code validator (isValidCep, both services)\<close>

text \<open>
  Both services validate with \<^verbatim>\<open>regexp.MustCompile(`^\d{8}$`).MatchString(cep)\<close>.
  The fragment of the RE2 syntax that the pattern uses is embedded as a datatype, and
  matching as a search: \<open>re_match r s i\<close> lists the positions at which a match of
  \<open>r\<close> that starts at position \<open>i\<close> of the text \<open>s\<close> can end, and
  \<open>MatchString\<close> asks for a match starting anywhere, as the unanchored Go call does.

  A \<open>char\<close> is a byte. The class \<^verbatim>\<open>\d\<close> of RE2 is the ASCII range 0x30..0x39
  only, and in UTF-8 none of these bytes occurs inside the encoding of another code
  point, so matching byte by byte agrees with Go's matching rune by rune on this pattern.
  Without the flag \<^verbatim>\<open>m\<close>, \<^verbatim>\<open>^\<close> and \<^verbatim>\<open>$\<close> match at the beginning and the end
  of the text only (\<^verbatim>\<open>$\<close> does not match before a final newline).
\<close>

datatype regexp =
    BeginText
  | EndText
  | PerlDigit
  | Repeat regexp nat
  | Concat regexp regexp

definition perl_digit :: "char \<Rightarrow> bool" where
  "perl_digit c = (48 \<le> (of_char c :: nat) \<and> (of_char c :: nat) \<le> 57)"

primrec iterate_match :: "nat \<Rightarrow> (nat \<Rightarrow> nat list) \<Rightarrow> nat \<Rightarrow> nat list" where
  "iterate_match 0 f i = [i]"
| "iterate_match (Suc n) f i = concat (map (iterate_match n f) (f i))"

primrec re_match :: "regexp \<Rightarrow> string \<Rightarrow> nat \<Rightarrow> nat list" where
  "re_match BeginText s i = (if i = 0 then [i] else [])"
| "re_match EndText s i = (if i = length s then [i] else [])"
| "re_match PerlDigit s i = (if i < length s \<and> perl_digit (s ! i) then [Suc i] else [])"
| "re_match (Repeat r n) s i = iterate_match n (re_match r s) i"
| "re_match (Concat r1 r2) s i = concat (map (re_match r2 s) (re_match r1 s i))"

definition MatchString :: "regexp \<Rightarrow> string \<Rightarrow> bool" where
  "MatchString re s = list_ex (\<lambda>i. re_match re s i \<noteq> []) [0..<Suc (length s)]"

text \<open>The pattern \<^verbatim>\<open>^\d{8}$\<close>.\<close>

definition cep_pattern :: regexp where
  "cep_pattern = Concat BeginText (Concat (Repeat PerlDigit 8) EndText)"

text \<open>\<^verbatim>\<open>isValidCep\<close> of servicea/main.go.\<close>

definition servicea_isValidCep :: "string \<Rightarrow> bool" where
  "servicea_isValidCep cep = (let re = cep_pattern in MatchString re cep)"

text \<open>\<^verbatim>\<open>isValidCep\<close> of serviceb/main.go.\<close>

definition serviceb_isValidCep :: "string \<Rightarrow> bool" where
  "serviceb_isValidCep cep = (let re = cep_pattern in MatchString re cep)"

section \<open>Errors\<close>

text \<open>
  A Go \<^verbatim>\<open>error\<close> of the two programs is one of the sentinels made with
  \<^verbatim>\<open>errors.New\<close>, an error a library call returned, or an error made with
  \<^verbatim>\<open>fmt.Errorf\<close>, which wraps its argument when the format ends in \<^verbatim>\<open>%w\<close>.
  Library errors are a type of their own (their text), so no library call can return a
  sentinel of the programs. Of \<^verbatim>\<open>fmt.Errorf\<close> the format string is kept; the
  formatted text is not modelled. \<^verbatim>\<open>ErrCepNotFound\<close> is declared in both programs,
  \<^verbatim>\<open>ErrInvalidCep\<close> in servicea only; the two processes never exchange error values.
\<close>

type_synonym lib_error = string

datatype go_error =
    ErrCepNotFound
  | ErrInvalidCep
  | Library lib_error
  | Errorf string "go_error option"

text \<open>
  \<^verbatim>\<open>errors.Is\<close>: the error itself or anything along its chain of wrapped errors. The
  programs call it with a sentinel as the target only.
\<close>

fun errors_Is :: "go_error \<Rightarrow> go_error \<Rightarrow> bool" where
  "errors_Is (Errorf m (Some inner)) target =
     (Errorf m (Some inner) = target \<or> errors_Is inner target)"
| "errors_Is err target = (err = target)"

section \<open>Spans, the response writer and outbound calls as a trace of effects\<close>

text \<open>
  A context carries at most one span. \<^verbatim>\<open>tracer.Start\<close> makes a span with a fresh
  identifier whose parent is the span of the context it is given. Everything a handler
  does to the outside is appended to the list of effects of the \<open>world\<close>: span starts,
  ends and events, the calls on the \<^verbatim>\<open>http.ResponseWriter\<close>, the requests sent with
  \<^verbatim>\<open>client.Do\<close>, the closing of a response body and the lines of \<^verbatim>\<open>log.Printf\<close>
  (by their format string).
\<close>

type_synonym span_id = nat
type_synonym ctx = "span_id option"

datatype effect =
    SpanStart span_id ctx string
  | SpanEnd span_id
  | SpanAddEvent span_id string int
  | HeaderSet string string
  | WriteHeader int
  | Write string
  | ClientDo ctx string string string
  | BodyClose
  | LogPrintf string

record world =
  next_span :: span_id
  effects :: "effect list"

definition emit :: "effect \<Rightarrow> world \<Rightarrow> world" where
  "emit e w = w\<lparr>effects := effects w @ [e]\<rparr>"

definition tracer_Start :: "ctx \<Rightarrow> string \<Rightarrow> world \<Rightarrow> (ctx \<times> span_id) \<times> world" where
  "tracer_Start c name w =
     (let sp = next_span w
      in ((Some sp, sp), emit (SpanStart sp c name) (w\<lparr>next_span := Suc sp\<rparr>)))"

definition span_End :: "span_id \<Rightarrow> world \<Rightarrow> world" where
  "span_End sp w = emit (SpanEnd sp) w"

text \<open>
  \<^verbatim>\<open>trace.SpanFromContext(ctx).AddEvent(name, http.status_code = n)\<close>: on a context
  without a span the span is the no-op span and nothing is recorded.
\<close>

definition SpanFromContext_AddEvent :: "ctx \<Rightarrow> string \<Rightarrow> int \<Rightarrow> world \<Rightarrow> world" where
  "SpanFromContext_AddEvent c name statusCode w =
     (case c of None \<Rightarrow> w | Some sp \<Rightarrow> emit (SpanAddEvent sp name statusCode) w)"

abbreviation StatusOK :: int where "StatusOK \<equiv> 200"
abbreviation StatusNotFound :: int where "StatusNotFound \<equiv> 404"
abbreviation StatusUnprocessableEntity :: int where "StatusUnprocessableEntity \<equiv> 422"
abbreviation StatusInternalServerError :: int where "StatusInternalServerError \<equiv> 500"

text \<open>
  A body is a stream: the bytes that arrive and then either the end of the stream or a
  read error. \<^verbatim>\<open>io.ReadAll\<close> returns the bytes at the end of the stream and the error
  otherwise.
\<close>

datatype body_stream = Stream string "lib_error option"

fun io_ReadAll :: "body_stream \<Rightarrow> lib_error + string" where
  "io_ReadAll (Stream bytes None) = Inr bytes"
| "io_ReadAll (Stream bytes (Some err)) = Inl err"

record http_request =
  Context :: ctx
  Body :: body_stream

record http_response =
  StatusCode :: int
  RespBody :: body_stream

text \<open>
  What the client of a handler sees: the status is the one of the first
  \<^verbatim>\<open>WriteHeader\<close>, or 200 when the handler writes the body first or writes nothing; the
  body is what the calls of \<^verbatim>\<open>Write\<close> wrote, in order.
\<close>

fun response_status :: "effect list \<Rightarrow> int" where
  "response_status [] = StatusOK"
| "response_status (WriteHeader code # es) = code"
| "response_status (Write bytes # es) = StatusOK"
| "response_status (e # es) = response_status es"

fun response_body :: "effect list \<Rightarrow> string" where
  "response_body [] = []"
| "response_body (Write bytes # es) = bytes @ response_body es"
| "response_body (e # es) = response_body es"

section \<open>The structs of the two programs\<close>

record ViaCepResponse =
  Cep :: string
  Logradouro :: string
  Complemento :: string
  Bairro :: string
  Localidade :: string
  Uf :: string
  Ibge :: string
  Gia :: string
  Ddd :: string
  Siafi :: string
  Erro :: bool

record CepRequest =
  Cep :: string

record ErrorResponse =
  Message :: string

text \<open>
  \<^verbatim>\<open>float64\<close> is the type parameter \<open>'f\<close>: its arithmetic is given by the
  environment below.
\<close>

record 'f WeatherResponse =
  Location_Name :: string
  Current_TempC :: 'f

record 'f WeatherResult =
  City :: string
  TempC :: 'f
  TempF :: 'f
  TempK :: 'f

section \<open>The environment: configuration, libraries and the network\<close>

text \<open>
  The package variables set in \<^verbatim>\<open>main\<close> (\<open>serviceBURL\<close>, \<open>weatherApiKey\<close>), the
  library functions the handlers call (\<^verbatim>\<open>encoding/json\<close>, \<^verbatim>\<open>net/url\<close>,
  \<^verbatim>\<open>net/http\<close>) and the arithmetic of \<^verbatim>\<open>float64\<close> are parameters of the model.
  \<open>json_Marshal_cep cep\<close> is \<^verbatim>\<open>json.Marshal(map[string]string{"cep": cep})\<close>;
  \<open>http_NewRequest method url\<close> is the error of \<^verbatim>\<open>http.NewRequestWithContext\<close>, if
  any; \<open>client_Do method url body\<close> is the outcome of sending the request;
  \<open>json_Encode_\<close>\<dots> are the bytes \<^verbatim>\<open>json.NewEncoder(w).Encode(v)\<close> writes;
  \<open>f64_const q\<close> is the \<^verbatim>\<open>float64\<close> of the constant \<open>q\<close>.
\<close>

record 'f env =
  serviceBURL :: string
  weatherApiKey :: string
  json_Decode_CepRequest :: "body_stream \<Rightarrow> lib_error + CepRequest"
  json_Marshal_cep :: "string \<Rightarrow> lib_error + string"
  json_Unmarshal_ViaCepResponse :: "string \<Rightarrow> lib_error + ViaCepResponse"
  json_Decode_WeatherResponse :: "body_stream \<Rightarrow> lib_error + 'f WeatherResponse"
  json_Encode_ErrorResponse :: "ErrorResponse \<Rightarrow> string"
  json_Encode_WeatherResult :: "'f WeatherResult \<Rightarrow> string"
  url_QueryEscape :: "string \<Rightarrow> string"
  http_NewRequest :: "string \<Rightarrow> string \<Rightarrow> lib_error option"
  client_Do :: "string \<Rightarrow> string \<Rightarrow> string \<Rightarrow> lib_error + http_response"
  f64_mul :: "'f \<Rightarrow> 'f \<Rightarrow> 'f"
  f64_add :: "'f \<Rightarrow> 'f \<Rightarrow> 'f"
  f64_const :: "rat \<Rightarrow> 'f"

section \<open>servicea/main.go\<close>

text \<open>
  A function that registers \<^verbatim>\<open>defer span.End()\<close> is split where the deferred call is
  registered: \<open>f\<close> starts the span, runs \<open>f_body\<close> (the rest of the source function,
  with its returns) and ends the span whichever return the body took. In the same way the
  code after \<^verbatim>\<open>defer resp.Body.Close()\<close> is \<open>f_read\<close>, and the body is closed after
  it, before the span ends (deferred calls run last registered first).
\<close>

definition servicea_respondWithError ::
    "'f env \<Rightarrow> int \<Rightarrow> string \<Rightarrow> ctx \<Rightarrow> world \<Rightarrow> world" where
  "servicea_respondWithError env statusCode message c w =
     (let w1 = SpanFromContext_AddEvent c ''error_response'' statusCode w;
          w2 = emit (HeaderSet ''Content-Type'' ''application/json'') w1;
          w3 = emit (WriteHeader statusCode) w2
      in emit (Write (json_Encode_ErrorResponse env \<lparr>Message = message\<rparr>)) w3)"

definition callServiceB_read :: "http_response \<Rightarrow> go_error + string" where
  "callServiceB_read resp =
     (case io_ReadAll (RespBody resp) of
        Inl err \<Rightarrow> Inl (Errorf ''error reading response body: %w'' (Some (Library err)))
      | Inr body \<Rightarrow>
          if StatusCode resp = StatusNotFound then Inl ErrCepNotFound
          else if StatusCode resp = StatusUnprocessableEntity then Inl ErrInvalidCep
          else if StatusCode resp \<noteq> StatusOK
            then Inl (Errorf ''unexpected status code: %d'' None)
          else Inr body)"

definition callServiceB_body ::
    "'f env \<Rightarrow> ctx \<Rightarrow> string \<Rightarrow> world \<Rightarrow> (go_error + string) \<times> world" where
  "callServiceB_body env c cep w =
     (case json_Marshal_cep env cep of
        Inl err \<Rightarrow> (Inl (Errorf ''error marshaling request: %w'' (Some (Library err))), w)
      | Inr reqBody \<Rightarrow>
          (case http_NewRequest env ''POST'' (serviceBURL env) of
             Some err \<Rightarrow> (Inl (Errorf ''error creating request: %w'' (Some (Library err))), w)
           | None \<Rightarrow>
               (let w1 = emit (ClientDo c ''POST'' (serviceBURL env) reqBody) w
                in case client_Do env ''POST'' (serviceBURL env) reqBody of
                     Inl err \<Rightarrow>
                       (Inl (Errorf ''error calling service B: %w'' (Some (Library err))), w1)
                   | Inr resp \<Rightarrow> (callServiceB_read resp, emit BodyClose w1))))"

definition callServiceB ::
    "'f env \<Rightarrow> ctx \<Rightarrow> string \<Rightarrow> world \<Rightarrow> (go_error + string) \<times> world" where
  "callServiceB env c cep w =
     (case tracer_Start c ''call_service_b'' w of
        ((c', sp), w1) \<Rightarrow>
          (case callServiceB_body env c' cep w1 of
             (res, w2) \<Rightarrow> (res, span_End sp w2)))"

definition handleCepRequest_body ::
    "'f env \<Rightarrow> http_request \<Rightarrow> ctx \<Rightarrow> world \<Rightarrow> world" where
  "handleCepRequest_body env r c w =
     (case json_Decode_CepRequest env (Body r) of
        Inl err \<Rightarrow>
          servicea_respondWithError env StatusUnprocessableEntity ''invalid zipcode'' c w
      | Inr req \<Rightarrow>
          if \<not> servicea_isValidCep (Cep req)
            then servicea_respondWithError env StatusUnprocessableEntity ''invalid zipcode'' c w
          else
            (case callServiceB env c (Cep req) w of
               (Inl err, w1) \<Rightarrow>
                 if errors_Is err ErrCepNotFound
                   then servicea_respondWithError env StatusNotFound ''can not find zipcode'' c w1
                 else if errors_Is err ErrInvalidCep
                   then servicea_respondWithError env StatusUnprocessableEntity
                          ''invalid zipcode'' c w1
                 else servicea_respondWithError env StatusInternalServerError
                        ''internal server error'' c w1
             | (Inr resp, w1) \<Rightarrow>
                 (let w2 = emit (HeaderSet ''Content-Type'' ''application/json'') w1;
                      w3 = emit (WriteHeader StatusOK) w2
                  in emit (Write resp) w3)))"

definition handleCepRequest :: "'f env \<Rightarrow> http_request \<Rightarrow> world \<Rightarrow> world" where
  "handleCepRequest env r w =
     (case tracer_Start (Context r) ''handle_cep_request'' w of
        ((c, sp), w1) \<Rightarrow> span_End sp (handleCepRequest_body env r c w1))"

section \<open>serviceb/main.go\<close>

text \<open>
  The conversions are written with the operations of the environment, the product rounded
  before the sum as the source is written; how \<^verbatim>\<open>float64\<close> rounds, and whether a
  compiler fuses the product and the sum, is outside this model.
\<close>

definition celsiusToFahrenheit :: "'f env \<Rightarrow> 'f \<Rightarrow> 'f" where
  "celsiusToFahrenheit env celsius =
     f64_add env (f64_mul env celsius (f64_const env (18 / 10))) (f64_const env 32)"

definition celsiusToKelvin :: "'f env \<Rightarrow> 'f \<Rightarrow> 'f" where
  "celsiusToKelvin env celsius = f64_add env celsius (f64_const env 273)"

definition serviceb_respondWithError ::
    "'f env \<Rightarrow> int \<Rightarrow> string \<Rightarrow> ctx \<Rightarrow> world \<Rightarrow> world" where
  "serviceb_respondWithError env statusCode message c w =
     (let w1 = SpanFromContext_AddEvent c ''error_response'' statusCode w;
          w2 = emit (HeaderSet ''Content-Type'' ''application/json'') w1;
          w3 = emit (WriteHeader statusCode) w2
      in emit (Write (json_Encode_ErrorResponse env \<lparr>Message = message\<rparr>)) w3)"

definition getCepInfo_read :: "'f env \<Rightarrow> http_response \<Rightarrow> go_error + string" where
  "getCepInfo_read env resp =
     (if StatusCode resp \<noteq> StatusOK
        then Inl (Errorf ''unexpected status code from ViaCEP: %d'' None)
      else
        (case io_ReadAll (RespBody resp) of
           Inl err \<Rightarrow> Inl (Errorf ''error reading response body: %w'' (Some (Library err)))
         | Inr body \<Rightarrow>
             (case json_Unmarshal_ViaCepResponse env body of
                Inl err \<Rightarrow>
                  Inl (Errorf ''error unmarshaling ViaCEP response: %w'' (Some (Library err)))
              | Inr cepInfo \<Rightarrow>
                  if Erro cepInfo then Inl ErrCepNotFound else Inr (Localidade cepInfo))))"

definition viacep_url :: "string \<Rightarrow> string" where
  "viacep_url cep = ''https://viacep.com.br/ws/'' @ cep @ ''/json/''"

definition getCepInfo_body ::
    "'f env \<Rightarrow> ctx \<Rightarrow> string \<Rightarrow> world \<Rightarrow> (go_error + string) \<times> world" where
  "getCepInfo_body env c cep w =
     (let url = viacep_url cep
      in case http_NewRequest env ''GET'' url of
           Some err \<Rightarrow> (Inl (Errorf ''error creating request: %w'' (Some (Library err))), w)
         | None \<Rightarrow>
             (let w1 = emit (ClientDo c ''GET'' url []) w
              in case client_Do env ''GET'' url [] of
                   Inl err \<Rightarrow>
                     (Inl (Errorf ''error calling ViaCEP API: %w'' (Some (Library err))), w1)
                 | Inr resp \<Rightarrow> (getCepInfo_read env resp, emit BodyClose w1)))"

definition getCepInfo ::
    "'f env \<Rightarrow> ctx \<Rightarrow> string \<Rightarrow> world \<Rightarrow> (go_error + string) \<times> world" where
  "getCepInfo env c cep w =
     (case tracer_Start c ''get_cep_info'' w of
        ((c', sp), w1) \<Rightarrow>
          (case getCepInfo_body env c' cep w1 of
             (res, w2) \<Rightarrow> (res, span_End sp w2)))"

definition weather_url :: "string \<Rightarrow> string \<Rightarrow> string" where
  "weather_url key encodedCity =
     ''https://api.weatherapi.com/v1/current.json?key='' @ key @ ''&q='' @ encodedCity
       @ ''&aqi=no''"

definition getWeatherInfo_read ::
    "'f env \<Rightarrow> http_response \<Rightarrow> world \<Rightarrow> (go_error + 'f WeatherResponse) \<times> world" where
  "getWeatherInfo_read env resp w =
     (if StatusCode resp \<noteq> StatusOK
        then (Inl (Errorf ''unexpected status code from Weather API: %d, body: %s'' None),
              emit (LogPrintf ''Weather API error: status=%d, body=%s'') w)
      else
        (case json_Decode_WeatherResponse env (RespBody resp) of
           Inl err \<Rightarrow>
             (Inl (Errorf ''error decoding Weather API response: %w'' (Some (Library err))),
              emit (LogPrintf ''Error decoding Weather API response: %v'') w)
         | Inr weather \<Rightarrow> (Inr weather, w)))"

definition getWeatherInfo_body ::
    "'f env \<Rightarrow> ctx \<Rightarrow> string \<Rightarrow> world \<Rightarrow> (go_error + 'f WeatherResponse) \<times> world" where
  "getWeatherInfo_body env c city w =
     (let encodedCity = url_QueryEscape env city;
          url = weather_url (weatherApiKey env) encodedCity
      in case http_NewRequest env ''GET'' url of
           Some err \<Rightarrow>
             (Inl (Errorf ''error creating request: %w'' (Some (Library err))),
              emit (LogPrintf ''Error creating request to Weather API: %v'') w)
         | None \<Rightarrow>
             (let w1 = emit (ClientDo c ''GET'' url []) w
              in case client_Do env ''GET'' url [] of
                   Inl err \<Rightarrow>
                     (Inl (Errorf ''error calling Weather API: %w'' (Some (Library err))),
                      emit (LogPrintf ''Error calling Weather API: %v'') w1)
                 | Inr resp \<Rightarrow>
                     (case getWeatherInfo_read env resp w1 of
                        (res, w2) \<Rightarrow> (res, emit BodyClose w2))))"

definition getWeatherInfo ::
    "'f env \<Rightarrow> ctx \<Rightarrow> string \<Rightarrow> world \<Rightarrow> (go_error + 'f WeatherResponse) \<times> world" where
  "getWeatherInfo env c city w =
     (case tracer_Start c ''get_weather_info'' w of
        ((c', sp), w1) \<Rightarrow>
          (case getWeatherInfo_body env c' city w1 of
             (res, w2) \<Rightarrow> (res, span_End sp w2)))"

definition handleWeatherRequest_body ::
    "'f env \<Rightarrow> http_request \<Rightarrow> ctx \<Rightarrow> world \<Rightarrow> world" where
  "handleWeatherRequest_body env r c w =
     (case json_Decode_CepRequest env (Body r) of
        Inl err \<Rightarrow>
          serviceb_respondWithError env StatusUnprocessableEntity ''invalid zipcode'' c w
      | Inr req \<Rightarrow>
          if \<not> serviceb_isValidCep (Cep req)
            then serviceb_respondWithError env StatusUnprocessableEntity ''invalid zipcode'' c w
          else
            (case getCepInfo env c (Cep req) w of
               (Inl err, w1) \<Rightarrow>
                 if errors_Is err ErrCepNotFound
                   then serviceb_respondWithError env StatusNotFound ''can not find zipcode'' c w1
                 else serviceb_respondWithError env StatusInternalServerError
                        ''internal server error'' c w1
             | (Inr location, w1) \<Rightarrow>
                 (case getWeatherInfo env c location w1 of
                    (Inl err, w2) \<Rightarrow>
                      serviceb_respondWithError env StatusInternalServerError
                        ''internal server error'' c w2
                  | (Inr weather, w2) \<Rightarrow>
                      (let tempC = Current_TempC weather;
                           tempF = celsiusToFahrenheit env tempC;
                           tempK = celsiusToKelvin env tempC;
                           result = \<lparr>City = location, TempC = tempC, TempF = tempF,
                                     TempK = tempK\<rparr>;
                           w3 = emit (HeaderSet ''Content-Type'' ''application/json'') w2;
                           w4 = emit (WriteHeader StatusOK) w3
                       in emit (Write (json_Encode_WeatherResult env result)) w4))))"

definition handleWeatherRequest :: "'f env \<Rightarrow> http_request \<Rightarrow> world \<Rightarrow> world" where
  "handleWeatherRequest env r w =
     (case tracer_Start (Context r) ''handle_weather_request'' w of
        ((c, sp), w1) \<Rightarrow> span_End sp (handleWeatherRequest_body env r c w1))"

section \<open>One request, and the two services composed\<close>

text \<open>
  The trace of one request is the list of effects of the handler run in a world that has
  recorded nothing yet and whose next span identifier is \<open>n\<close>.
\<close>

definition new_world :: "span_id \<Rightarrow> world" where
  "new_world n = \<lparr>next_span = n, effects = []\<rparr>"

definition servicea_trace :: "'f env \<Rightarrow> http_request \<Rightarrow> span_id \<Rightarrow> effect list" where
  "servicea_trace env r n = effects (handleCepRequest env r (new_world n))"

definition serviceb_trace :: "'f env \<Rightarrow> http_request \<Rightarrow> span_id \<Rightarrow> effect list" where
  "serviceb_trace env r n = effects (handleWeatherRequest env r (new_world n))"

text \<open>The names of the spans a trace starts and the URLs it sends requests to, in order.\<close>

fun span_names :: "effect list \<Rightarrow> string list" where
  "span_names [] = []"
| "span_names (SpanStart sp c name # es) = name # span_names es"
| "span_names (e # es) = span_names es"

fun client_calls :: "effect list \<Rightarrow> string list" where
  "client_calls [] = []"
| "client_calls (ClientDo c method url body # es) = url # client_calls es"
| "client_calls (e # es) = client_calls es"

text \<open>
  The deployment points \<open>serviceBURL\<close> at the route \<^verbatim>\<open>POST /weather\<close> of serviceb,
  whose handler is \<^verbatim>\<open>handleWeatherRequest\<close>. A transport that delivers the request body
  and the response unchanged is then this outcome of \<^verbatim>\<open>client.Do\<close> in servicea:
  serviceb, a process of its own with environment \<open>envB\<close>, handles the body in a new
  world, and its status and body come back. serviceb starts its span from the context of
  the incoming request as it is, which carries no span.
\<close>

definition downstream_transport ::
    "'f env \<Rightarrow> string \<Rightarrow> string \<Rightarrow> string \<Rightarrow> lib_error + http_response" where
  "downstream_transport envB method url body =
     (let t = serviceb_trace envB \<lparr>Context = None, Body = Stream body None\<rparr> 0
      in Inr \<lparr>StatusCode = response_status t, RespBody = Stream (response_body t) None\<rparr>)"

section \<open>Reading a trace\<close>

text \<open>
  The effects that neither concern a span nor the response writer: the outbound request,
  the closing of its response body and the log lines.
\<close>

fun quiet_effect :: "effect \<Rightarrow> bool" where
  "quiet_effect (ClientDo c method url body) = True"
| "quiet_effect BodyClose = True"
| "quiet_effect (LogPrintf fmt) = True"
| "quiet_effect e = False"

text \<open>The part of a trace that precedes the first call on the response writer that sends.\<close>

fun before_write :: "effect list \<Rightarrow> effect list" where
  "before_write [] = []"
| "before_write (WriteHeader code # es) = []"
| "before_write (Write bytes # es) = []"
| "before_write (e # es) = e # before_write es"

text \<open>
  The result of an operation and the effects of its body, taken apart: the result depends
  on neither the context nor the world, the effects are appended to those of the world.
\<close>

definition callServiceB_result :: "'f env \<Rightarrow> string \<Rightarrow> go_error + string" where
  "callServiceB_result env cep = fst (callServiceB_body env None cep (new_world 0))"

definition callServiceB_effects :: "'f env \<Rightarrow> ctx \<Rightarrow> string \<Rightarrow> effect list" where
  "callServiceB_effects env c cep = effects (snd (callServiceB_body env c cep (new_world 0)))"

definition getCepInfo_result :: "'f env \<Rightarrow> string \<Rightarrow> go_error + string" where
  "getCepInfo_result env cep = fst (getCepInfo_body env None cep (new_world 0))"

definition getCepInfo_effects :: "'f env \<Rightarrow> ctx \<Rightarrow> string \<Rightarrow> effect list" where
  "getCepInfo_effects env c cep = effects (snd (getCepInfo_body env c cep (new_world 0)))"

definition getWeatherInfo_result :: "'f env \<Rightarrow> string \<Rightarrow> go_error + 'f WeatherResponse" where
  "getWeatherInfo_result env city = fst (getWeatherInfo_body env None city (new_world 0))"

definition getWeatherInfo_effects :: "'f env \<Rightarrow> ctx \<Rightarrow> string \<Rightarrow> effect list" where
  "getWeatherInfo_effects env c city =
     effects (snd (getWeatherInfo_body env c city (new_world 0)))"

section \<open>Example environments\<close>

text \<open>
  Concrete environments on which the theorems below are instantiated. The libraries are
  stand-ins: a request body is the code itself, the body of the postal-code provider is
  the locality (or \<open>erro\<close> for a record with the flag set, or an opening brace for a
  malformed payload), every weather reading is 28.5, an error response is encoded as its
  message and a result as its city, and \<^verbatim>\<open>float64\<close> is replaced by exact rationals.
\<close>

definition example_env :: "(string \<Rightarrow> lib_error + http_response) \<Rightarrow> rat env" where
  "example_env net =
     \<lparr>serviceBURL = ''http://serviceb:8081/weather'',
      weatherApiKey = ''key'',
      json_Decode_CepRequest =
        (\<lambda>b. case b of Stream s None \<Rightarrow> Inr \<lparr>Cep = s\<rparr> | Stream s (Some e) \<Rightarrow> Inl e),
      json_Marshal_cep = (\<lambda>cep. Inr cep),
      json_Unmarshal_ViaCepResponse =
        (\<lambda>s. if s = ''{'' then Inl ''unexpected end of JSON input''
             else Inr \<lparr>ViaCepResponse.Cep = [], Logradouro = [], Complemento = [], Bairro = [],
                       Localidade = (if s = ''erro'' then [] else s), Uf = [], Ibge = [],
                       Gia = [], Ddd = [], Siafi = [], Erro = (s = ''erro'')\<rparr>),
      json_Decode_WeatherResponse =
        (\<lambda>b. case b of Stream s None \<Rightarrow> Inr \<lparr>Location_Name = s, Current_TempC = 57 / 2\<rparr>
                     | Stream s (Some e) \<Rightarrow> Inl e),
      json_Encode_ErrorResponse = Message,
      json_Encode_WeatherResult = City,
      url_QueryEscape = (\<lambda>s. s),
      http_NewRequest = (\<lambda>method url. None),
      client_Do = (\<lambda>method url body. net url),
      f64_mul = (\<lambda>x y. x * y),
      f64_add = (\<lambda>x y. x + y),
      f64_const = (\<lambda>q. q)\<rparr>"

definition example_request :: "string \<Rightarrow> http_request" where
  "example_request code = \<lparr>Context = None, Body = Stream code None\<rparr>"

definition example_reply :: "int \<Rightarrow> string \<Rightarrow> string \<Rightarrow> lib_error + http_response" where
  "example_reply status bytes url = Inr \<lparr>StatusCode = status, RespBody = Stream bytes None\<rparr>"

text \<open>A response whose status arrives and whose body then fails to be read.\<close>

definition example_broken_reply :: "int \<Rightarrow> string \<Rightarrow> lib_error + http_response" where
  "example_broken_reply status url =
     Inr \<lparr>StatusCode = status, RespBody = Stream [] (Some ''unexpected EOF'')\<rparr>"

text \<open>Both providers answer 200; the postal-code provider answers with \<open>locality\<close>.\<close>

definition example_providers :: "string \<Rightarrow> string \<Rightarrow> lib_error + http_response" where
  "example_providers locality url =
     (if url = viacep_url ''01001000'' then example_reply 200 locality url
      else if url = weather_url ''key'' locality then example_reply 200 ''current'' url
      else Inl ''no such host'')"

text \<open>The postal-code provider answers; the weather provider answers 400.\<close>

definition example_weather_down :: "string \<Rightarrow> lib_error + http_response" where
  "example_weather_down url =
     (if url = viacep_url ''01001000'' then example_reply 200 ''Sao Paulo'' url
      else example_reply 400 ''bad request'' url)"

text \<open>servicea in front of a serviceb that runs in \<open>envB\<close>.\<close>

definition example_entry_env :: "rat env \<Rightarrow> rat env" where
  "example_entry_env envB =
     (example_env (\<lambda>url. Inl ''unused''))\<lparr>client_Do := downstream_transport envB\<rparr>"

section \<open>The validator accepts exactly the strings of eight ASCII digits\<close>

lemma digit_codes:
  "48 \<le> n \<Longrightarrow> n \<le> 57 \<Longrightarrow> n \<in> {48::nat, 49, 50, 51, 52, 53, 54, 55, 56, 57}"
  by simp presburger

lemma perl_digit_iff: "perl_digit c \<longleftrightarrow> c \<in> set ''0123456789''"
proof
  assume "perl_digit c"
  then have "(of_char c :: nat) \<in> {48, 49, 50, 51, 52, 53, 54, 55, 56, 57}"
    unfolding perl_digit_def by (intro digit_codes) simp_all
  also have "{48, 49, 50, 51, 52, 53, 54, 55, 56, 57} = (of_char ` set ''0123456789'' :: nat set)"
    by simp
  finally obtain d where d: "d \<in> set ''0123456789''" and "(of_char c :: nat) = of_char d"
    by blast
  then have "c = d" by simp
  with d show "c \<in> set ''0123456789''" by simp
next
  assume "c \<in> set ''0123456789''"
  then show "perl_digit c" unfolding perl_digit_def by auto
qed

text \<open>
  Repeating \<open>n\<close> times a pattern that consumes one character satisfying \<open>P\<close> consumes
  \<open>n\<close> such characters or fails.
\<close>

lemma iterate_single_step:
  assumes "\<And>a. f a = (if a < m \<and> P a then [Suc a] else [])"
  shows "iterate_match n f i = (if \<forall>k<n. i + k < m \<and> P (i + k) then [i + n] else [])"
proof (induction n arbitrary: i)
  case 0
  then show ?case by simp
next
  case (Suc n)
  have split: "(\<forall>k<Suc n. i + k < m \<and> P (i + k)) \<longleftrightarrow>
      (i < m \<and> P i) \<and> (\<forall>k<n. Suc i + k < m \<and> P (Suc i + k))"
    by (auto simp: less_Suc_eq_0_disj)
  show ?case
  proof (cases "i < m \<and> P i")
    case True
    then have "f i = [Suc i]" by (simp add: assms)
    then have "iterate_match (Suc n) f i = iterate_match n f (Suc i)" by simp
    also have "\<dots> = (if \<forall>k<n. Suc i + k < m \<and> P (Suc i + k) then [Suc i + n] else [])"
      by (rule Suc.IH)
    finally show ?thesis unfolding split using True by simp
  next
    case False
    then have "f i = []" by (simp add: assms)
    then have "iterate_match (Suc n) f i = []" by simp
    moreover have "\<not> (\<forall>k<Suc n. i + k < m \<and> P (i + k))"
      unfolding split using False by blast
    ultimately show ?thesis by (simp only: if_False)
  qed
qed

lemma iterate_digits:
  "iterate_match n (re_match PerlDigit s) i =
     (if \<forall>k<n. i + k < length s \<and> perl_digit (s ! (i + k)) then [i + n] else [])"
  by (rule iterate_single_step) simp

lemma re_match_cep:
  "re_match cep_pattern s i =
     (if i = 0 \<and> length s = 8 \<and> (\<forall>k<8. perl_digit (s ! k)) then [8] else [])"
  unfolding cep_pattern_def by (auto simp: iterate_digits)

lemma MatchString_cep:
  "MatchString cep_pattern s \<longleftrightarrow> length s = 8 \<and> (\<forall>c\<in>set s. perl_digit c)"
  unfolding MatchString_def list_ex_iff
  by (auto simp: re_match_cep all_set_conv_all_nth)

text \<open>
  Claim C5. For every string \<open>s\<close>, \<^verbatim>\<open>isValidCep(s)\<close> (in servicea and in serviceb) is
  true if and only if \<open>s\<close> has length exactly 8 and every character of \<open>s\<close> is an ASCII
  digit. The function is total and has no error case: it is a HOL function to \<open>bool\<close>.
\<close>

theorem isValidCep_iff_eight_digits:
  "servicea_isValidCep s = (length s = 8 \<and> (\<forall>c\<in>set s. c \<in> set ''0123456789''))
   \<and> serviceb_isValidCep s = (length s = 8 \<and> (\<forall>c\<in>set s. c \<in> set ''0123456789''))"
  unfolding servicea_isValidCep_def serviceb_isValidCep_def Let_def MatchString_cep
  by (simp add: perl_digit_iff)

theorem isValidCep_iff_eight_digits_witness:
  "servicea_isValidCep ''01001000'' \<and> \<not> servicea_isValidCep ''123''
   \<and> \<not> servicea_isValidCep ''abcdefgh'' \<and> \<not> servicea_isValidCep ''010010000''
   \<and> serviceb_isValidCep ''01001000'' \<and> \<not> serviceb_isValidCep ''123''
   \<and> \<not> serviceb_isValidCep ''abcdefgh'' \<and> \<not> serviceb_isValidCep []"
  using isValidCep_iff_eight_digits [of "''01001000''"]
    isValidCep_iff_eight_digits [of "''123''"]
    isValidCep_iff_eight_digits [of "''abcdefgh''"]
    isValidCep_iff_eight_digits [of "''010010000''"]
    isValidCep_iff_eight_digits [of "[]"]
  by simp

section \<open>Operations as a result and appended effects\<close>

lemmas world_ops = emit_def tracer_Start_def span_End_def SpanFromContext_AddEvent_def
  new_world_def

lemma callServiceB_unfold:
  "callServiceB env c cep w =
     (callServiceB_result env cep,
      w\<lparr>next_span := Suc (next_span w),
        effects := effects w @ SpanStart (next_span w) c ''call_service_b''
          # callServiceB_effects env (Some (next_span w)) cep @ [SpanEnd (next_span w)]\<rparr>)"
  by (simp add: callServiceB_def callServiceB_body_def callServiceB_result_def
      callServiceB_effects_def world_ops Let_def split: sum.splits option.splits)

lemma getCepInfo_unfold:
  "getCepInfo env c cep w =
     (getCepInfo_result env cep,
      w\<lparr>next_span := Suc (next_span w),
        effects := effects w @ SpanStart (next_span w) c ''get_cep_info''
          # getCepInfo_effects env (Some (next_span w)) cep @ [SpanEnd (next_span w)]\<rparr>)"
  by (simp add: getCepInfo_def getCepInfo_body_def getCepInfo_result_def
      getCepInfo_effects_def world_ops Let_def split: sum.splits option.splits)

lemma getWeatherInfo_unfold:
  "getWeatherInfo env c city w =
     (getWeatherInfo_result env city,
      w\<lparr>next_span := Suc (next_span w),
        effects := effects w @ SpanStart (next_span w) c ''get_weather_info''
          # getWeatherInfo_effects env (Some (next_span w)) city @ [SpanEnd (next_span w)]\<rparr>)"
  by (simp add: getWeatherInfo_def getWeatherInfo_body_def getWeatherInfo_read_def
      getWeatherInfo_result_def getWeatherInfo_effects_def world_ops Let_def
      split: sum.splits option.splits)

lemma callServiceB_fst: "fst (callServiceB env c cep w) = callServiceB_result env cep"
  by (simp add: callServiceB_unfold)

lemma getCepInfo_fst: "fst (getCepInfo env c cep w) = getCepInfo_result env cep"
  by (simp add: getCepInfo_unfold)

lemma getWeatherInfo_fst: "fst (getWeatherInfo env c city w) = getWeatherInfo_result env city"
  by (simp add: getWeatherInfo_unfold)

lemma callServiceB_result_eq:
  "callServiceB_result env cep =
     (case json_Marshal_cep env cep of
        Inl err \<Rightarrow> Inl (Errorf ''error marshaling request: %w'' (Some (Library err)))
      | Inr reqBody \<Rightarrow>
          (case http_NewRequest env ''POST'' (serviceBURL env) of
             Some err \<Rightarrow> Inl (Errorf ''error creating request: %w'' (Some (Library err)))
           | None \<Rightarrow>
               (case client_Do env ''POST'' (serviceBURL env) reqBody of
                  Inl err \<Rightarrow> Inl (Errorf ''error calling service B: %w'' (Some (Library err)))
                | Inr resp \<Rightarrow> callServiceB_read resp)))"
  by (simp add: callServiceB_result_def callServiceB_body_def world_ops Let_def
      split: sum.splits option.splits)

lemma getCepInfo_result_eq:
  "getCepInfo_result env cep =
     (case http_NewRequest env ''GET'' (viacep_url cep) of
        Some err \<Rightarrow> Inl (Errorf ''error creating request: %w'' (Some (Library err)))
      | None \<Rightarrow>
          (case client_Do env ''GET'' (viacep_url cep) [] of
             Inl err \<Rightarrow> Inl (Errorf ''error calling ViaCEP API: %w'' (Some (Library err)))
           | Inr resp \<Rightarrow> getCepInfo_read env resp))"
  by (simp add: getCepInfo_result_def getCepInfo_body_def world_ops Let_def
      split: sum.splits option.splits)

lemma getWeatherInfo_result_eq:
  "getWeatherInfo_result env city =
     (case http_NewRequest env ''GET''
             (weather_url (weatherApiKey env) (url_QueryEscape env city)) of
        Some err \<Rightarrow> Inl (Errorf ''error creating request: %w'' (Some (Library err)))
      | None \<Rightarrow>
          (case client_Do env ''GET''
                  (weather_url (weatherApiKey env) (url_QueryEscape env city)) [] of
             Inl err \<Rightarrow> Inl (Errorf ''error calling Weather API: %w'' (Some (Library err)))
           | Inr resp \<Rightarrow>
               if StatusCode resp \<noteq> StatusOK
                 then Inl (Errorf ''unexpected status code from Weather API: %d, body: %s'' None)
               else
                 (case json_Decode_WeatherResponse env (RespBody resp) of
                    Inl err \<Rightarrow>
                      Inl (Errorf ''error decoding Weather API response: %w''
                            (Some (Library err)))
                  | Inr weather \<Rightarrow> Inr weather)))"
  by (simp add: getWeatherInfo_result_def getWeatherInfo_body_def getWeatherInfo_read_def
      world_ops Let_def split: sum.splits option.splits)

lemmas result_eqs = getCepInfo_fst getCepInfo_result_eq getCepInfo_read_def
  getWeatherInfo_fst getWeatherInfo_result_eq
  callServiceB_fst callServiceB_result_eq callServiceB_read_def

lemma callServiceB_effects_quiet: "list_all quiet_effect (callServiceB_effects env c cep)"
  by (simp add: callServiceB_body_def callServiceB_effects_def world_ops Let_def
      split: sum.splits option.splits)

lemma getCepInfo_effects_quiet: "list_all quiet_effect (getCepInfo_effects env c cep)"
  by (simp add: getCepInfo_body_def getCepInfo_effects_def world_ops Let_def
      split: sum.splits option.splits)

lemma getWeatherInfo_effects_quiet: "list_all quiet_effect (getWeatherInfo_effects env c city)"
  by (simp add: getWeatherInfo_body_def getWeatherInfo_read_def getWeatherInfo_effects_def
      world_ops Let_def split: sum.splits option.splits)

lemma getCepInfo_client_calls:
  "set (client_calls (getCepInfo_effects env c cep)) \<subseteq> {viacep_url cep}"
  by (simp add: getCepInfo_body_def getCepInfo_effects_def world_ops Let_def
      split: sum.splits option.splits)

lemma getCepInfo_client_calls_sent:
  "http_NewRequest env ''GET'' (viacep_url cep) = None \<Longrightarrow>
   client_calls (getCepInfo_effects env c cep) = [viacep_url cep]"
  by (simp add: getCepInfo_body_def getCepInfo_effects_def world_ops Let_def
      split: sum.splits option.splits)

lemma getWeatherInfo_client_calls_sent:
  "http_NewRequest env ''GET'' (weather_url (weatherApiKey env) (url_QueryEscape env city)) = None
   \<Longrightarrow> client_calls (getWeatherInfo_effects env c city) =
         [weather_url (weatherApiKey env) (url_QueryEscape env city)]"
  by (simp add: getWeatherInfo_body_def getWeatherInfo_read_def getWeatherInfo_effects_def
      world_ops Let_def split: sum.splits option.splits)

subsection \<open>Quiet effects are skipped by the readers of a trace\<close>

lemma response_status_quiet:
  "list_all quiet_effect xs \<Longrightarrow> response_status (xs @ ys) = response_status ys"
proof (induction xs)
  case Nil
  then show ?case by simp
next
  case (Cons e xs)
  then show ?case by (cases e) simp_all
qed

lemma response_body_quiet:
  "list_all quiet_effect xs \<Longrightarrow> response_body (xs @ ys) = response_body ys"
proof (induction xs)
  case Nil
  then show ?case by simp
next
  case (Cons e xs)
  then show ?case by (cases e) simp_all
qed

lemma span_names_quiet:
  "list_all quiet_effect xs \<Longrightarrow> span_names (xs @ ys) = span_names ys"
proof (induction xs)
  case Nil
  then show ?case by simp
next
  case (Cons e xs)
  then show ?case by (cases e) simp_all
qed

lemma before_write_quiet:
  "list_all quiet_effect xs \<Longrightarrow> before_write (xs @ ys) = xs @ before_write ys"
proof (induction xs)
  case Nil
  then show ?case by simp
next
  case (Cons e xs)
  then show ?case by (cases e) simp_all
qed

lemma client_calls_append: "client_calls (xs @ ys) = client_calls xs @ client_calls ys"
proof (induction xs)
  case Nil
  then show ?case by simp
next
  case (Cons e xs)
  then show ?case by (cases e) simp_all
qed

lemma quiet_no_span_event:
  assumes "list_all quiet_effect xs"
  shows "SpanStart sp c name \<notin> set xs" and "SpanEnd sp \<notin> set xs"
    and "SpanAddEvent sp name code \<notin> set xs" and "count_list xs (SpanEnd sp) = 0"
  using assms by (induction xs) (auto simp: list_all_iff)

lemmas quiet_simps = callServiceB_effects_quiet getCepInfo_effects_quiet
  getWeatherInfo_effects_quiet response_status_quiet response_body_quiet span_names_quiet
  before_write_quiet client_calls_append quiet_no_span_event

lemmas servicea_handler = servicea_trace_def handleCepRequest_def handleCepRequest_body_def
  servicea_respondWithError_def callServiceB_unfold world_ops Let_def

lemmas serviceb_handler = serviceb_trace_def handleWeatherRequest_def
  handleWeatherRequest_body_def serviceb_respondWithError_def getCepInfo_unfold
  getWeatherInfo_unfold world_ops Let_def

subsection \<open>Facts about the example environments\<close>

lemmas example_defs = example_env_def example_request_def example_reply_def
  example_broken_reply_def
  example_providers_def example_weather_down_def example_entry_env_def

lemma example_code_valid:
  "servicea_isValidCep ''01001000''" "serviceb_isValidCep ''01001000''"
  "\<not> serviceb_isValidCep ''123''"
  by (simp_all add: servicea_isValidCep_def serviceb_isValidCep_def MatchString_cep
      perl_digit_iff)

lemma example_urls_differ:
  "viacep_url cep \<noteq> weather_url key city" "weather_url key city \<noteq> viacep_url cep"
  by (simp_all add: viacep_url_def weather_url_def)

lemma example_downstream_trace:
  "serviceb_trace (example_env (example_providers ''Sao Paulo''))
       \<lparr>Context = None, Body = Stream ''01001000'' None\<rparr> 0 =
     [SpanStart 0 None ''handle_weather_request'',
      SpanStart 1 (Some 0) ''get_cep_info'',
      ClientDo (Some 1) ''GET'' (viacep_url ''01001000'') [],
      BodyClose,
      SpanEnd 1,
      SpanStart 2 (Some 0) ''get_weather_info'',
      ClientDo (Some 2) ''GET'' (weather_url ''key'' ''Sao Paulo'') [],
      BodyClose,
      SpanEnd 2,
      HeaderSet ''Content-Type'' ''application/json'',
      WriteHeader 200,
      Write ''Sao Paulo'',
      SpanEnd 0]"
  by (simp add: serviceb_handler getCepInfo_result_def getCepInfo_effects_def
      getCepInfo_body_def getCepInfo_read_def getWeatherInfo_result_def
      getWeatherInfo_effects_def getWeatherInfo_body_def getWeatherInfo_read_def
      example_env_def example_providers_def example_reply_def example_code_valid
      viacep_url_def weather_url_def)

lemma example_not_found_trace:
  "servicea_trace (example_env (example_reply 404 [])) (example_request ''01001000'') 0 =
     [SpanStart 0 None ''handle_cep_request'',
      SpanStart 1 (Some 0) ''call_service_b'',
      ClientDo (Some 1) ''POST'' ''http://serviceb:8081/weather'' ''01001000'',
      BodyClose,
      SpanEnd 1,
      SpanAddEvent 0 ''error_response'' 404,
      HeaderSet ''Content-Type'' ''application/json'',
      WriteHeader 404,
      Write ''can not find zipcode'',
      SpanEnd 0]"
  by (simp add: servicea_handler callServiceB_result_def callServiceB_effects_def
      callServiceB_body_def callServiceB_read_def example_env_def example_request_def
      example_reply_def example_code_valid)

section \<open>servicea: the status of the downstream response\<close>

text \<open>
  Claim C1, as amended. For every response \<^verbatim>\<open>client.Do\<close> returns to servicea from the
  downstream service: when \<^verbatim>\<open>io.ReadAll\<close> reads its body, \<^verbatim>\<open>callServiceB\<close> maps the
  status 404 to \<^verbatim>\<open>ErrCepNotFound\<close>, 422 to \<^verbatim>\<open>ErrInvalidCep\<close> and every other status
  but 200 to another error, and the handler answers 404, 422 and 500 with the message
  "internal server error" respectively (on 200 it answers 200 with the body it read);
  when the body cannot be read, the call fails with the read error and the handler answers
  500 with the message "internal server error", whatever the status. The body is read
  before the status is tested.
\<close>

theorem callServiceB_maps_downstream_status:
  assumes "json_Decode_CepRequest env (Body r) = Inr req"
      and "servicea_isValidCep (Cep req)"
      and "json_Marshal_cep env (Cep req) = Inr reqBody"
      and "http_NewRequest env ''POST'' (serviceBURL env) = None"
      and "client_Do env ''POST'' (serviceBURL env) reqBody = Inr resp"
  shows "(io_ReadAll (RespBody resp) = Inr body \<longrightarrow>
          fst (callServiceB env c (Cep req) w) =
            (if StatusCode resp = StatusNotFound then Inl ErrCepNotFound
             else if StatusCode resp = StatusUnprocessableEntity then Inl ErrInvalidCep
             else if StatusCode resp \<noteq> StatusOK
               then Inl (Errorf ''unexpected status code: %d'' None)
             else Inr body)
          \<and> response_status (servicea_trace env r n) =
            (if StatusCode resp = StatusNotFound then StatusNotFound
             else if StatusCode resp = StatusUnprocessableEntity then StatusUnprocessableEntity
             else if StatusCode resp \<noteq> StatusOK then StatusInternalServerError
             else StatusOK)
          \<and> response_body (servicea_trace env r n) =
            (if StatusCode resp = StatusNotFound
               then json_Encode_ErrorResponse env \<lparr>Message = ''can not find zipcode''\<rparr>
             else if StatusCode resp = StatusUnprocessableEntity
               then json_Encode_ErrorResponse env \<lparr>Message = ''invalid zipcode''\<rparr>
             else if StatusCode resp \<noteq> StatusOK
               then json_Encode_ErrorResponse env \<lparr>Message = ''internal server error''\<rparr>
             else body))
      \<and> (io_ReadAll (RespBody resp) = Inl err \<longrightarrow>
          fst (callServiceB env c (Cep req) w) =
            Inl (Errorf ''error reading response body: %w'' (Some (Library err)))
          \<and> response_status (servicea_trace env r n) = StatusInternalServerError
          \<and> response_body (servicea_trace env r n) =
            json_Encode_ErrorResponse env \<lparr>Message = ''internal server error''\<rparr>)"
  using assms
  by (simp add: servicea_handler quiet_simps callServiceB_result_eq callServiceB_read_def)

theorem callServiceB_maps_downstream_status_witness:
  "response_status (servicea_trace (example_env (example_reply 404 []))
      (example_request ''01001000'') 0) = 404
   \<and> response_status (servicea_trace (example_env (example_reply 422 []))
      (example_request ''01001000'') 0) = 422
   \<and> response_status (servicea_trace (example_env (example_reply 503 []))
      (example_request ''01001000'') 0) = 500
   \<and> response_body (servicea_trace (example_env (example_reply 503 []))
      (example_request ''01001000'') 0) = ''internal server error''
   \<and> response_status (servicea_trace (example_env (example_reply 200 ''ok''))
      (example_request ''01001000'') 0) = 200
   \<and> response_body (servicea_trace (example_env (example_reply 200 ''ok''))
      (example_request ''01001000'') 0) = ''ok''"
proof -
  have hyps:
    "json_Decode_CepRequest (example_env (example_reply status bytes))
        (Body (example_request ''01001000'')) = Inr \<lparr>Cep = ''01001000''\<rparr>"
    "servicea_isValidCep (Cep \<lparr>Cep = ''01001000''\<rparr>)"
    "json_Marshal_cep (example_env (example_reply status bytes)) (Cep \<lparr>Cep = ''01001000''\<rparr>)
        = Inr ''01001000''"
    "http_NewRequest (example_env (example_reply status bytes)) ''POST''
        (serviceBURL (example_env (example_reply status bytes))) = None"
    "client_Do (example_env (example_reply status bytes)) ''POST''
        (serviceBURL (example_env (example_reply status bytes))) ''01001000''
        = Inr \<lparr>StatusCode = status, RespBody = Stream bytes None\<rparr>"
    for status bytes
    by (simp_all add: example_env_def example_request_def example_reply_def example_code_valid)
  have enc: "json_Encode_ErrorResponse (example_env net) \<lparr>Message = m\<rparr> = m" for net m
    by (simp add: example_env_def)
  show ?thesis
    using callServiceB_maps_downstream_status [OF hyps, of 404 "[]" "[]" _ _ 0]
      callServiceB_maps_downstream_status [OF hyps, of 422 "[]" "[]" _ _ 0]
      callServiceB_maps_downstream_status [OF hyps, of 503 "[]" "[]" _ _ 0]
      callServiceB_maps_downstream_status [OF hyps, of 200 "''ok''" "''ok''" _ _ 0]
    by (simp add: enc)
qed

text \<open>
  The claim as it was stated fails: a response with status 404 (or 422) whose body cannot
  be read is received, and servicea does not map it to \<^verbatim>\<open>ErrCepNotFound\<close> (or
  \<^verbatim>\<open>ErrInvalidCep\<close>) but answers 500.
\<close>

theorem callServiceB_unread_body_counterexample:
  "client_Do (example_env (example_broken_reply 404)) ''POST''
      (serviceBURL (example_env (example_broken_reply 404))) ''01001000''
      = Inr \<lparr>StatusCode = StatusNotFound, RespBody = Stream [] (Some ''unexpected EOF'')\<rparr>
   \<and> fst (callServiceB (example_env (example_broken_reply 404)) None ''01001000''
        (new_world 0))
      = Inl (Errorf ''error reading response body: %w'' (Some (Library ''unexpected EOF'')))
   \<and> \<not> errors_Is
        (Errorf ''error reading response body: %w'' (Some (Library ''unexpected EOF'')))
        ErrCepNotFound
   \<and> response_status (servicea_trace (example_env (example_broken_reply 404))
        (example_request ''01001000'') 0) = StatusInternalServerError
   \<and> response_status (servicea_trace (example_env (example_broken_reply 404))
        (example_request ''01001000'') 0) \<noteq> StatusNotFound
   \<and> client_Do (example_env (example_broken_reply 422)) ''POST''
      (serviceBURL (example_env (example_broken_reply 422))) ''01001000''
      = Inr \<lparr>StatusCode = StatusUnprocessableEntity,
             RespBody = Stream [] (Some ''unexpected EOF'')\<rparr>
   \<and> response_status (servicea_trace (example_env (example_broken_reply 422))
        (example_request ''01001000'') 0) = StatusInternalServerError"
  by (simp add: servicea_handler quiet_simps callServiceB_result_eq callServiceB_read_def
      example_defs example_code_valid)

section \<open>serviceb: the handler as a state machine\<close>

text \<open>
  Claim C2. \<^verbatim>\<open>handleWeatherRequest\<close> stops at the first failure, in this order: a body
  that does not decode yields 422 and an invalid code yields 422, both with the message
  "invalid zipcode" and without any span but the handler's or any outbound request; an
  \<^verbatim>\<open>ErrCepNotFound\<close> from \<^verbatim>\<open>getCepInfo\<close> yields 404 and any other error of it 500,
  without the span of \<^verbatim>\<open>getWeatherInfo\<close> or a request to anything but the postal-code
  provider; any error of \<^verbatim>\<open>getWeatherInfo\<close> yields 500 with the message "internal server
  error"; and when all steps succeed the answer is 200 with the encoded result, whose
  temperatures are the conversions of the reading.
\<close>

theorem handleWeatherRequest_state_machine:
  "(json_Decode_CepRequest env (Body r) = Inl err \<longrightarrow>
     response_status (serviceb_trace env r n) = StatusUnprocessableEntity
     \<and> response_body (serviceb_trace env r n) =
         json_Encode_ErrorResponse env \<lparr>Message = ''invalid zipcode''\<rparr>
     \<and> span_names (serviceb_trace env r n) = [''handle_weather_request'']
     \<and> client_calls (serviceb_trace env r n) = [])
  \<and> (json_Decode_CepRequest env (Body r) = Inr req \<and> \<not> serviceb_isValidCep (Cep req) \<longrightarrow>
     response_status (serviceb_trace env r n) = StatusUnprocessableEntity
     \<and> response_body (serviceb_trace env r n) =
         json_Encode_ErrorResponse env \<lparr>Message = ''invalid zipcode''\<rparr>
     \<and> span_names (serviceb_trace env r n) = [''handle_weather_request'']
     \<and> client_calls (serviceb_trace env r n) = [])
  \<and> (json_Decode_CepRequest env (Body r) = Inr req \<and> serviceb_isValidCep (Cep req)
      \<and> fst (getCepInfo env c1 (Cep req) w1) = Inl e \<and> errors_Is e ErrCepNotFound \<longrightarrow>
     response_status (serviceb_trace env r n) = StatusNotFound
     \<and> response_body (serviceb_trace env r n) =
         json_Encode_ErrorResponse env \<lparr>Message = ''can not find zipcode''\<rparr>
     \<and> span_names (serviceb_trace env r n) = [''handle_weather_request'', ''get_cep_info'']
     \<and> set (client_calls (serviceb_trace env r n)) \<subseteq> {viacep_url (Cep req)})
  \<and> (json_Decode_CepRequest env (Body r) = Inr req \<and> serviceb_isValidCep (Cep req)
      \<and> fst (getCepInfo env c1 (Cep req) w1) = Inl e \<and> \<not> errors_Is e ErrCepNotFound \<longrightarrow>
     response_status (serviceb_trace env r n) = StatusInternalServerError
     \<and> response_body (serviceb_trace env r n) =
         json_Encode_ErrorResponse env \<lparr>Message = ''internal server error''\<rparr>
     \<and> span_names (serviceb_trace env r n) = [''handle_weather_request'', ''get_cep_info'']
     \<and> set (client_calls (serviceb_trace env r n)) \<subseteq> {viacep_url (Cep req)})
  \<and> (json_Decode_CepRequest env (Body r) = Inr req \<and> serviceb_isValidCep (Cep req)
      \<and> fst (getCepInfo env c1 (Cep req) w1) = Inr location
      \<and> fst (getWeatherInfo env c2 location w2) = Inl e' \<longrightarrow>
     response_status (serviceb_trace env r n) = StatusInternalServerError
     \<and> response_body (serviceb_trace env r n) =
         json_Encode_ErrorResponse env \<lparr>Message = ''internal server error''\<rparr>
     \<and> span_names (serviceb_trace env r n) =
         [''handle_weather_request'', ''get_cep_info'', ''get_weather_info''])
  \<and> (json_Decode_CepRequest env (Body r) = Inr req \<and> serviceb_isValidCep (Cep req)
      \<and> fst (getCepInfo env c1 (Cep req) w1) = Inr location
      \<and> fst (getWeatherInfo env c2 location w2) = Inr weather \<longrightarrow>
     response_status (serviceb_trace env r n) = StatusOK
     \<and> response_body (serviceb_trace env r n) =
         json_Encode_WeatherResult env
           \<lparr>City = location, TempC = Current_TempC weather,
            TempF = celsiusToFahrenheit env (Current_TempC weather),
            TempK = celsiusToKelvin env (Current_TempC weather)\<rparr>
     \<and> span_names (serviceb_trace env r n) =
         [''handle_weather_request'', ''get_cep_info'', ''get_weather_info''])"
  using getCepInfo_client_calls [of env "Some (Suc n)" "Cep req"]
  by (simp add: serviceb_handler quiet_simps getCepInfo_fst getWeatherInfo_fst)

theorem handleWeatherRequest_state_machine_witness:
  "response_status (serviceb_trace (example_env (example_providers ''Sao Paulo''))
      \<lparr>Context = None, Body = Stream [] (Some ''unexpected EOF'')\<rparr> 0) = 422
   \<and> response_status (serviceb_trace (example_env (example_providers ''Sao Paulo''))
      (example_request ''123'') 0) = 422
   \<and> response_status (serviceb_trace (example_env (example_providers ''erro''))
      (example_request ''01001000'') 0) = 404
   \<and> response_status (serviceb_trace (example_env (\<lambda>url. Inl ''timeout''))
      (example_request ''01001000'') 0) = 500
   \<and> response_status (serviceb_trace (example_env example_weather_down)
      (example_request ''01001000'') 0) = 500
   \<and> span_names (serviceb_trace (example_env example_weather_down)
      (example_request ''01001000'') 0) =
        [''handle_weather_request'', ''get_cep_info'', ''get_weather_info'']
   \<and> response_status (serviceb_trace (example_env (example_providers ''Sao Paulo''))
      (example_request ''01001000'') 0) = 200
   \<and> response_body (serviceb_trace (example_env (example_providers ''Sao Paulo''))
      (example_request ''01001000'') 0) = ''Sao Paulo''"
proof -
  have 1: "response_status (serviceb_trace (example_env (example_providers ''Sao Paulo''))
      \<lparr>Context = None, Body = Stream [] (Some ''unexpected EOF'')\<rparr> 0) = 422"
    using handleWeatherRequest_state_machine
        [where env = "example_env (example_providers ''Sao Paulo'')"
          and r = "\<lparr>Context = None, Body = Stream [] (Some ''unexpected EOF'')\<rparr>"
          and err = "''unexpected EOF''" and n = 0]
    by (simp add: example_env_def)
  have 2: "response_status (serviceb_trace (example_env (example_providers ''Sao Paulo''))
      (example_request ''123'') 0) = 422"
    using handleWeatherRequest_state_machine
        [where env = "example_env (example_providers ''Sao Paulo'')"
          and r = "example_request ''123''" and req = "\<lparr>Cep = ''123''\<rparr>" and n = 0]
    by (simp add: example_env_def example_request_def example_code_valid)
  have 3: "response_status (serviceb_trace (example_env (example_providers ''erro''))
      (example_request ''01001000'') 0) = 404"
    using handleWeatherRequest_state_machine
        [where env = "example_env (example_providers ''erro'')"
          and r = "example_request ''01001000''" and req = "\<lparr>Cep = ''01001000''\<rparr>"
          and e = ErrCepNotFound and n = 0]
    by (simp add: example_defs example_code_valid result_eqs)
  have 4: "response_status (serviceb_trace (example_env (\<lambda>url. Inl ''timeout''))
      (example_request ''01001000'') 0) = 500"
    using handleWeatherRequest_state_machine
        [where env = "example_env (\<lambda>url. Inl ''timeout'')"
          and r = "example_request ''01001000''" and req = "\<lparr>Cep = ''01001000''\<rparr>"
          and e = "Errorf ''error calling ViaCEP API: %w'' (Some (Library ''timeout''))"
          and n = 0]
    by (simp add: example_defs example_code_valid result_eqs)
  have 5: "response_status (serviceb_trace (example_env example_weather_down)
      (example_request ''01001000'') 0) = 500
    \<and> span_names (serviceb_trace (example_env example_weather_down)
      (example_request ''01001000'') 0) =
        [''handle_weather_request'', ''get_cep_info'', ''get_weather_info'']"
    using handleWeatherRequest_state_machine
        [where env = "example_env example_weather_down"
          and r = "example_request ''01001000''" and req = "\<lparr>Cep = ''01001000''\<rparr>"
          and location = "''Sao Paulo''"
          and e' = "Errorf ''unexpected status code from Weather API: %d, body: %s'' None"
          and n = 0]
    by (simp add: example_defs example_code_valid result_eqs example_urls_differ)
  have 6: "response_status (serviceb_trace (example_env (example_providers ''Sao Paulo''))
      (example_request ''01001000'') 0) = 200
    \<and> response_body (serviceb_trace (example_env (example_providers ''Sao Paulo''))
      (example_request ''01001000'') 0) = ''Sao Paulo''"
    using handleWeatherRequest_state_machine
        [where env = "example_env (example_providers ''Sao Paulo'')"
          and r = "example_request ''01001000''" and req = "\<lparr>Cep = ''01001000''\<rparr>"
          and location = "''Sao Paulo''"
          and weather = "\<lparr>Location_Name = ''current'', Current_TempC = 57 / 2\<rparr>" and n = 0]
    by (simp add: example_defs example_code_valid result_eqs example_urls_differ)
  from 1 2 3 4 5 6 show ?thesis by blast
qed

section \<open>serviceb: resolving the location\<close>

text \<open>
  Claim C3, as amended. \<^verbatim>\<open>getCepInfo\<close> fails with \<^verbatim>\<open>ErrCepNotFound\<close> exactly when the
  provider's response has status 200 and its body is read and decoded into a record whose
  \<open>Erro\<close> flag is set. It fails with another error (which the handler answers with 500)
  when the request fails in transport, when the status is any other than 200 (so for
  every status that is not a 2xx one, and for 201 to 299 too), when the body cannot be
  read and when the payload is malformed. It succeeds exactly when the response has status
  200 and its body is read and decoded into a record whose flag is not set, and then it
  returns the \<open>Localidade\<close> field.
\<close>

theorem getCepInfo_outcomes:
  "((\<exists>e. fst (getCepInfo env c cep w) = Inl e \<and> errors_Is e ErrCepNotFound) \<longleftrightarrow>
      (\<exists>resp body cepInfo.
          http_NewRequest env ''GET'' (viacep_url cep) = None
          \<and> client_Do env ''GET'' (viacep_url cep) [] = Inr resp
          \<and> StatusCode resp = StatusOK
          \<and> io_ReadAll (RespBody resp) = Inr body
          \<and> json_Unmarshal_ViaCepResponse env body = Inr cepInfo
          \<and> Erro cepInfo))
   \<and> (http_NewRequest env ''GET'' (viacep_url cep) = None
       \<and> client_Do env ''GET'' (viacep_url cep) [] = Inl err \<longrightarrow>
         (\<exists>e. fst (getCepInfo env c cep w) = Inl e \<and> \<not> errors_Is e ErrCepNotFound))
   \<and> (http_NewRequest env ''GET'' (viacep_url cep) = None
       \<and> client_Do env ''GET'' (viacep_url cep) [] = Inr resp
       \<and> StatusCode resp \<noteq> StatusOK \<longrightarrow>
         fst (getCepInfo env c cep w) =
           Inl (Errorf ''unexpected status code from ViaCEP: %d'' None)
         \<and> (\<exists>e. fst (getCepInfo env c cep w) = Inl e \<and> \<not> errors_Is e ErrCepNotFound))
   \<and> (http_NewRequest env ''GET'' (viacep_url cep) = None
       \<and> client_Do env ''GET'' (viacep_url cep) [] = Inr resp
       \<and> StatusCode resp = StatusOK
       \<and> io_ReadAll (RespBody resp) = Inl err \<longrightarrow>
         (\<exists>e. fst (getCepInfo env c cep w) = Inl e \<and> \<not> errors_Is e ErrCepNotFound))
   \<and> (http_NewRequest env ''GET'' (viacep_url cep) = None
       \<and> client_Do env ''GET'' (viacep_url cep) [] = Inr resp
       \<and> StatusCode resp = StatusOK
       \<and> io_ReadAll (RespBody resp) = Inr body
       \<and> json_Unmarshal_ViaCepResponse env body = Inl err \<longrightarrow>
         (\<exists>e. fst (getCepInfo env c cep w) = Inl e \<and> \<not> errors_Is e ErrCepNotFound))
   \<and> (fst (getCepInfo env c cep w) = Inr city \<longleftrightarrow>
      (\<exists>resp body cepInfo.
          http_NewRequest env ''GET'' (viacep_url cep) = None
          \<and> client_Do env ''GET'' (viacep_url cep) [] = Inr resp
          \<and> StatusCode resp = StatusOK
          \<and> io_ReadAll (RespBody resp) = Inr body
          \<and> json_Unmarshal_ViaCepResponse env body = Inr cepInfo
          \<and> \<not> Erro cepInfo \<and> city = Localidade cepInfo))"
  unfolding getCepInfo_fst getCepInfo_result_eq getCepInfo_read_def
  by (auto split: sum.splits option.splits)

theorem getCepInfo_outcomes_witness:
  "fst (getCepInfo (example_env (example_providers ''erro'')) None ''01001000'' (new_world 0))
      = Inl ErrCepNotFound
   \<and> fst (getCepInfo (example_env (\<lambda>url. Inl ''timeout'')) None ''01001000'' (new_world 0))
      = Inl (Errorf ''error calling ViaCEP API: %w'' (Some (Library ''timeout'')))
   \<and> fst (getCepInfo (example_env (example_reply 503 [])) None ''01001000'' (new_world 0))
      = Inl (Errorf ''unexpected status code from ViaCEP: %d'' None)
   \<and> fst (getCepInfo (example_env (example_reply 200 ''{'')) None ''01001000'' (new_world 0))
      = Inl (Errorf ''error unmarshaling ViaCEP response: %w''
               (Some (Library ''unexpected end of JSON input'')))
   \<and> fst (getCepInfo (example_env (example_providers ''Sao Paulo'')) None ''01001000''
        (new_world 0)) = Inr ''Sao Paulo''"
proof -
  have found: "\<exists>resp body cepInfo.
      http_NewRequest (example_env (example_providers ''Sao Paulo'')) ''GET''
          (viacep_url ''01001000'') = None
      \<and> client_Do (example_env (example_providers ''Sao Paulo'')) ''GET''
          (viacep_url ''01001000'') [] = Inr resp
      \<and> StatusCode resp = StatusOK
      \<and> io_ReadAll (RespBody resp) = Inr body
      \<and> json_Unmarshal_ViaCepResponse (example_env (example_providers ''Sao Paulo'')) body
          = Inr cepInfo
      \<and> \<not> Erro cepInfo \<and> ''Sao Paulo'' = Localidade cepInfo"
    by (simp add: example_defs)
  have 5: "fst (getCepInfo (example_env (example_providers ''Sao Paulo'')) None ''01001000''
        (new_world 0)) = Inr ''Sao Paulo''"
    using getCepInfo_outcomes
        [where env = "example_env (example_providers ''Sao Paulo'')" and c = None
          and cep = "''01001000''" and w = "new_world 0" and city = "''Sao Paulo''"]
      found
    by blast
  have flagged: "\<exists>resp body cepInfo.
      http_NewRequest (example_env (example_providers ''erro'')) ''GET''
          (viacep_url ''01001000'') = None
      \<and> client_Do (example_env (example_providers ''erro'')) ''GET''
          (viacep_url ''01001000'') [] = Inr resp
      \<and> StatusCode resp = StatusOK
      \<and> io_ReadAll (RespBody resp) = Inr body
      \<and> json_Unmarshal_ViaCepResponse (example_env (example_providers ''erro'')) body
          = Inr cepInfo
      \<and> Erro cepInfo"
    by (simp add: example_defs)
  have "\<exists>e. fst (getCepInfo (example_env (example_providers ''erro'')) None ''01001000''
        (new_world 0)) = Inl e \<and> errors_Is e ErrCepNotFound"
    using getCepInfo_outcomes
        [where env = "example_env (example_providers ''erro'')" and c = None
          and cep = "''01001000''" and w = "new_world 0"]
      flagged
    by blast
  then have 1: "fst (getCepInfo (example_env (example_providers ''erro'')) None ''01001000''
        (new_world 0)) = Inl ErrCepNotFound"
    by (auto simp: result_eqs example_defs)
  have 2: "fst (getCepInfo (example_env (\<lambda>url. Inl ''timeout'')) None ''01001000''
        (new_world 0))
      = Inl (Errorf ''error calling ViaCEP API: %w'' (Some (Library ''timeout'')))"
    by (simp add: result_eqs example_defs)
  have 3: "fst (getCepInfo (example_env (example_reply 503 [])) None ''01001000''
        (new_world 0)) = Inl (Errorf ''unexpected status code from ViaCEP: %d'' None)"
    by (simp add: result_eqs example_defs)
  have 4: "fst (getCepInfo (example_env (example_reply 200 ''{'')) None ''01001000''
        (new_world 0))
      = Inl (Errorf ''error unmarshaling ViaCEP response: %w''
               (Some (Library ''unexpected end of JSON input'')))"
    by (simp add: result_eqs example_defs)
  from 1 2 3 4 5 show ?thesis by blast
qed

text \<open>
  The claim as it was stated fails at a 2xx status other than 200: with status 201 and a
  record whose flag is set the failure is not \<^verbatim>\<open>ErrCepNotFound\<close>, and with status 201
  and a record whose flag is not set the call does not succeed.
\<close>

theorem getCepInfo_status_201_counterexample:
  "client_Do (example_env (example_reply 201 ''erro'')) ''GET'' (viacep_url ''01001000'') []
      = Inr \<lparr>StatusCode = 201, RespBody = Stream ''erro'' None\<rparr>
   \<and> (case json_Unmarshal_ViaCepResponse (example_env (example_reply 201 ''erro'')) ''erro'' of
        Inl err \<Rightarrow> False | Inr cepInfo \<Rightarrow> Erro cepInfo)
   \<and> fst (getCepInfo (example_env (example_reply 201 ''erro'')) None ''01001000''
        (new_world 0))
      = Inl (Errorf ''unexpected status code from ViaCEP: %d'' None)
   \<and> \<not> errors_Is (Errorf ''unexpected status code from ViaCEP: %d'' None) ErrCepNotFound
   \<and> client_Do (example_env (example_reply 201 ''Sao Paulo'')) ''GET''
        (viacep_url ''01001000'') []
      = Inr \<lparr>StatusCode = 201, RespBody = Stream ''Sao Paulo'' None\<rparr>
   \<and> (case json_Unmarshal_ViaCepResponse (example_env (example_reply 201 ''Sao Paulo''))
             ''Sao Paulo'' of
        Inl err \<Rightarrow> False
      | Inr cepInfo \<Rightarrow> \<not> Erro cepInfo \<and> Localidade cepInfo = ''Sao Paulo'')
   \<and> fst (getCepInfo (example_env (example_reply 201 ''Sao Paulo'')) None ''01001000''
        (new_world 0))
      \<noteq> Inr ''Sao Paulo''"
  by (simp add: result_eqs example_defs)

section \<open>The two services composed\<close>

lemma validators_equal: "servicea_isValidCep = serviceb_isValidCep"
  by (rule ext) (simp add: servicea_isValidCep_def serviceb_isValidCep_def)

lemma serviceb_status_of_valid:
  "json_Decode_CepRequest env (Body r) = Inr req \<Longrightarrow> serviceb_isValidCep (Cep req) \<Longrightarrow>
   response_status (serviceb_trace env r n) \<noteq> StatusUnprocessableEntity"
  by (simp add: serviceb_handler quiet_simps split: sum.splits)

text \<open>
  Claim C4. When servicea is given a valid code for which serviceb answers 200, servicea
  answers 200 and the body it writes is, byte for byte, the body serviceb wrote: it is
  written by one \<^verbatim>\<open>Write\<close> of the bytes read, nothing is encoded again.
\<close>

theorem entry_returns_downstream_body:
  assumes "json_Decode_CepRequest envA (Body r) = Inr req"
      and "servicea_isValidCep (Cep req)"
      and "json_Marshal_cep envA (Cep req) = Inr reqBody"
      and "http_NewRequest envA ''POST'' (serviceBURL envA) = None"
      and "client_Do envA = downstream_transport envB"
      and "response_status (serviceb_trace envB \<lparr>Context = None, Body = Stream reqBody None\<rparr> 0)
             = StatusOK"
  shows "response_status (servicea_trace envA r n) = StatusOK
     \<and> response_body (servicea_trace envA r n) =
         response_body (serviceb_trace envB \<lparr>Context = None, Body = Stream reqBody None\<rparr> 0)
     \<and> filter (\<lambda>e. \<not> quiet_effect e) (servicea_trace envA r n) =
         [SpanStart n (Context r) ''handle_cep_request'',
          SpanStart (Suc n) (Some n) ''call_service_b'',
          SpanEnd (Suc n),
          HeaderSet ''Content-Type'' ''application/json'',
          WriteHeader StatusOK,
          Write (response_body
                  (serviceb_trace envB \<lparr>Context = None, Body = Stream reqBody None\<rparr> 0)),
          SpanEnd n]"
  using assms callServiceB_effects_quiet [of envA "Some (Suc n)" "Cep req"]
  by (simp add: servicea_handler quiet_simps callServiceB_result_eq callServiceB_read_def
      downstream_transport_def list_all_iff)

theorem entry_returns_downstream_body_witness:
  "response_status
      (servicea_trace (example_entry_env (example_env (example_providers ''Sao Paulo'')))
        (example_request ''01001000'') 0) = 200
   \<and> response_body
      (servicea_trace (example_entry_env (example_env (example_providers ''Sao Paulo'')))
        (example_request ''01001000'') 0) = ''Sao Paulo''"
proof -
  have hyps:
    "json_Decode_CepRequest (example_entry_env (example_env (example_providers ''Sao Paulo'')))
        (Body (example_request ''01001000'')) = Inr \<lparr>Cep = ''01001000''\<rparr>"
    "servicea_isValidCep (Cep \<lparr>Cep = ''01001000''\<rparr>)"
    "json_Marshal_cep (example_entry_env (example_env (example_providers ''Sao Paulo'')))
        (Cep \<lparr>Cep = ''01001000''\<rparr>) = Inr ''01001000''"
    "http_NewRequest (example_entry_env (example_env (example_providers ''Sao Paulo''))) ''POST''
        (serviceBURL (example_entry_env (example_env (example_providers ''Sao Paulo''))))
        = None"
    "client_Do (example_entry_env (example_env (example_providers ''Sao Paulo'')))
        = downstream_transport (example_env (example_providers ''Sao Paulo''))"
    "response_status (serviceb_trace (example_env (example_providers ''Sao Paulo''))
        \<lparr>Context = None, Body = Stream ''01001000'' None\<rparr> 0) = StatusOK"
    by (simp_all add: example_entry_env_def example_env_def example_request_def
        example_code_valid example_downstream_trace [unfolded example_env_def])
  show ?thesis
    using entry_returns_downstream_body [OF hyps, of 0]
    by (simp add: example_downstream_trace)
qed

text \<open>
  Claim C9. The two validators are the same function. When the transport delivers
  unchanged and the body servicea marshals for a valid code decodes in serviceb to the
  same code (the contract of \<^verbatim>\<open>encoding/json\<close>, a hypothesis here), then for every
  request whose code passes the validation of servicea: the validation of serviceb passes,
  serviceb does not answer 422, \<^verbatim>\<open>callServiceB\<close> does not return \<^verbatim>\<open>ErrInvalidCep\<close>, and
  servicea does not answer 422.
\<close>

theorem forwarded_code_is_never_rejected:
  assumes "client_Do envA = downstream_transport envB"
      and "\<forall>cep b. servicea_isValidCep cep \<and> json_Marshal_cep envA cep = Inr b \<longrightarrow>
             json_Decode_CepRequest envB (Stream b None) = Inr \<lparr>Cep = cep\<rparr>"
      and "json_Decode_CepRequest envA (Body r) = Inr req"
      and "servicea_isValidCep (Cep req)"
  shows "servicea_isValidCep = serviceb_isValidCep
     \<and> serviceb_isValidCep (Cep req)
     \<and> (json_Marshal_cep envA (Cep req) = Inr reqBody \<longrightarrow>
          response_status (serviceb_trace envB \<lparr>Context = None, Body = Stream reqBody None\<rparr> 0)
            \<noteq> StatusUnprocessableEntity)
     \<and> \<not> (\<exists>e. fst (callServiceB envA c (Cep req) w) = Inl e \<and> errors_Is e ErrInvalidCep)
     \<and> response_status (servicea_trace envA r n) \<noteq> StatusUnprocessableEntity"
proof -
  have validB: "serviceb_isValidCep (Cep req)"
    using assms(4) by (simp add: validators_equal)
  have statusB:
    "response_status (serviceb_trace envB \<lparr>Context = None, Body = Stream b None\<rparr> 0)
       \<noteq> StatusUnprocessableEntity"
    if "json_Marshal_cep envA (Cep req) = Inr b" for b
  proof -
    have "json_Decode_CepRequest envB (Body \<lparr>Context = None, Body = Stream b None\<rparr>)
        = Inr \<lparr>Cep = Cep req\<rparr>"
      using assms(2,4) that by simp
    then show ?thesis
      using validB by (intro serviceb_status_of_valid [where req = "\<lparr>Cep = Cep req\<rparr>"]) simp_all
  qed
  have result:
    "\<not> (\<exists>e. callServiceB_result envA (Cep req) = Inl e \<and> errors_Is e ErrInvalidCep)"
    using statusB
    by (auto simp: callServiceB_result_eq callServiceB_read_def assms(1)
        downstream_transport_def Let_def split: sum.splits option.splits if_splits)
  have statusA: "response_status (servicea_trace envA r n) \<noteq> StatusUnprocessableEntity"
    using result assms(3,4)
    by (simp add: servicea_handler quiet_simps split: sum.splits)
  show ?thesis
    using validB statusB result statusA by (simp add: validators_equal callServiceB_fst)
qed

theorem forwarded_code_is_never_rejected_witness:
  "serviceb_isValidCep ''01001000''
   \<and> response_status (serviceb_trace (example_env (example_providers ''erro''))
        \<lparr>Context = None, Body = Stream ''01001000'' None\<rparr> 0) \<noteq> 422
   \<and> response_status
        (servicea_trace (example_entry_env (example_env (example_providers ''erro'')))
          (example_request ''01001000'') 0) \<noteq> 422"
proof -
  have hyps:
    "client_Do (example_entry_env (example_env (example_providers ''erro'')))
        = downstream_transport (example_env (example_providers ''erro''))"
    "\<forall>cep b. servicea_isValidCep cep
        \<and> json_Marshal_cep (example_entry_env (example_env (example_providers ''erro''))) cep
            = Inr b \<longrightarrow>
        json_Decode_CepRequest (example_env (example_providers ''erro'')) (Stream b None)
          = Inr \<lparr>Cep = cep\<rparr>"
    "json_Decode_CepRequest (example_entry_env (example_env (example_providers ''erro'')))
        (Body (example_request ''01001000'')) = Inr \<lparr>Cep = ''01001000''\<rparr>"
    "servicea_isValidCep (Cep \<lparr>Cep = ''01001000''\<rparr>)"
    by (simp_all add: example_entry_env_def example_env_def example_request_def
        example_code_valid)
  have marshal:
    "json_Marshal_cep (example_entry_env (example_env (example_providers ''erro'')))
        ''01001000'' = Inr ''01001000''"
    by (simp add: example_entry_env_def example_env_def)
  show ?thesis
    using forwarded_code_is_never_rejected [OF hyps, where reqBody = "''01001000''" and n = 0]
      marshal
    by simp
qed

section \<open>Spans\<close>

lemma servicea_spans:
  "(\<forall>sp c name. SpanStart sp c name \<in> set (servicea_trace env r n) \<longrightarrow>
        count_list (servicea_trace env r n) (SpanEnd sp) = 1)
   \<and> SpanStart n (Context r) ''handle_cep_request'' \<in> set (servicea_trace env r n)
   \<and> last (servicea_trace env r n) = SpanEnd n"
  by (simp add: servicea_handler quiet_simps split: sum.splits)

lemma serviceb_spans:
  "(\<forall>sp c name. SpanStart sp c name \<in> set (serviceb_trace env r n) \<longrightarrow>
        count_list (serviceb_trace env r n) (SpanEnd sp) = 1)
   \<and> SpanStart n (Context r) ''handle_weather_request'' \<in> set (serviceb_trace env r n)
   \<and> last (serviceb_trace env r n) = SpanEnd n"
  by (simp add: serviceb_handler quiet_simps split: sum.splits)

lemma operation_spans:
  "hd (drop (length (effects w)) (effects (snd (callServiceB env c cep w))))
      = SpanStart (next_span w) c ''call_service_b''
   \<and> count_list (drop (length (effects w)) (effects (snd (callServiceB env c cep w))))
        (SpanEnd (next_span w)) = 1
   \<and> hd (drop (length (effects w)) (effects (snd (getCepInfo env c cep w))))
      = SpanStart (next_span w) c ''get_cep_info''
   \<and> count_list (drop (length (effects w)) (effects (snd (getCepInfo env c cep w))))
        (SpanEnd (next_span w)) = 1
   \<and> hd (drop (length (effects w)) (effects (snd (getWeatherInfo env c city w))))
      = SpanStart (next_span w) c ''get_weather_info''
   \<and> count_list (drop (length (effects w)) (effects (snd (getWeatherInfo env c city w))))
        (SpanEnd (next_span w)) = 1"
  by (simp add: callServiceB_unfold getCepInfo_unfold getWeatherInfo_unfold quiet_simps)

text \<open>
  Claim C7. Every span that is started is ended exactly once, on every path. In the trace
  of a request to servicea and in the trace of a request to serviceb, every span that is
  started has exactly one end, the handler's span is started and its end is the last
  effect. The downstream call and each provider call, run in any world, start their span
  first and end it exactly once, whatever they return. The paths are all the returns of
  the source; none of them panics.
\<close>

theorem spans_end_exactly_once:
  "((\<forall>sp c' name. SpanStart sp c' name \<in> set (servicea_trace env r n) \<longrightarrow>
        count_list (servicea_trace env r n) (SpanEnd sp) = 1)
    \<and> SpanStart n (Context r) ''handle_cep_request'' \<in> set (servicea_trace env r n)
    \<and> last (servicea_trace env r n) = SpanEnd n)
   \<and> ((\<forall>sp c' name. SpanStart sp c' name \<in> set (serviceb_trace env r n) \<longrightarrow>
        count_list (serviceb_trace env r n) (SpanEnd sp) = 1)
    \<and> SpanStart n (Context r) ''handle_weather_request'' \<in> set (serviceb_trace env r n)
    \<and> last (serviceb_trace env r n) = SpanEnd n)
   \<and> (hd (drop (length (effects w)) (effects (snd (callServiceB env c cep w))))
        = SpanStart (next_span w) c ''call_service_b''
    \<and> count_list (drop (length (effects w)) (effects (snd (callServiceB env c cep w))))
        (SpanEnd (next_span w)) = 1
    \<and> hd (drop (length (effects w)) (effects (snd (getCepInfo env c cep w))))
        = SpanStart (next_span w) c ''get_cep_info''
    \<and> count_list (drop (length (effects w)) (effects (snd (getCepInfo env c cep w))))
        (SpanEnd (next_span w)) = 1
    \<and> hd (drop (length (effects w)) (effects (snd (getWeatherInfo env c city w))))
        = SpanStart (next_span w) c ''get_weather_info''
    \<and> count_list (drop (length (effects w)) (effects (snd (getWeatherInfo env c city w))))
        (SpanEnd (next_span w)) = 1)"
  using servicea_spans [of env r n] serviceb_spans [of env r n]
    operation_spans [of w env c cep city]
  by blast

theorem spans_end_exactly_once_witness:
  "SpanStart 1 (Some 0) ''call_service_b''
      \<in> set (servicea_trace (example_env (example_reply 404 [])) (example_request ''01001000'') 0)
   \<and> count_list
        (servicea_trace (example_env (example_reply 404 [])) (example_request ''01001000'') 0)
        (SpanEnd 1) = 1
   \<and> count_list
        (servicea_trace (example_env (example_reply 404 [])) (example_request ''01001000'') 0)
        (SpanEnd 0) = 1
   \<and> SpanStart 2 (Some 0) ''get_weather_info''
      \<in> set (serviceb_trace (example_env (example_providers ''Sao Paulo''))
              \<lparr>Context = None, Body = Stream ''01001000'' None\<rparr> 0)
   \<and> count_list
        (serviceb_trace (example_env (example_providers ''Sao Paulo''))
          \<lparr>Context = None, Body = Stream ''01001000'' None\<rparr> 0)
        (SpanEnd 2) = 1"
proof -
  note a = spans_end_exactly_once
      [where env = "example_env (example_reply 404 [])" and r = "example_request ''01001000''"
        and n = 0, THEN conjunct1]
  note b = spans_end_exactly_once
      [where env = "example_env (example_providers ''Sao Paulo'')"
        and r = "\<lparr>Context = None, Body = Stream ''01001000'' None\<rparr>" and n = 0,
        THEN conjunct2, THEN conjunct1]
  have a1: "SpanStart 1 (Some 0) ''call_service_b''
      \<in> set (servicea_trace (example_env (example_reply 404 [])) (example_request ''01001000'') 0)"
    by (simp add: example_not_found_trace)
  have a0: "SpanStart 0 None ''handle_cep_request''
      \<in> set (servicea_trace (example_env (example_reply 404 [])) (example_request ''01001000'') 0)"
    by (simp add: example_not_found_trace)
  have b2: "SpanStart 2 (Some 0) ''get_weather_info''
      \<in> set (serviceb_trace (example_env (example_providers ''Sao Paulo''))
              \<lparr>Context = None, Body = Stream ''01001000'' None\<rparr> 0)"
    by (simp add: example_downstream_trace)
  from a a0 a1 b b2 show ?thesis by blast
qed

text \<open>
  Claim C8. On every failure path of either handler an event named "error_response" that
  carries the status of the response is added to the handler's span before anything of
  the response is written, and at that point the span has been started and has not been
  ended. The failure paths of servicea are a body that does not decode (422), an invalid
  code (422) and an error of \<^verbatim>\<open>callServiceB\<close> (404, 422 or 500 by the error); those of
  serviceb are a body that does not decode (422), an invalid code (422), an error of
  \<^verbatim>\<open>getCepInfo\<close> (404 or 500 by the error) and an error of \<^verbatim>\<open>getWeatherInfo\<close> (500).
  On the one remaining path of each handler, where every step succeeds, the status is 200
  and the trace has no such event.
\<close>

theorem error_response_event_precedes_response:
  "(json_Decode_CepRequest env (Body r) = Inl err \<longrightarrow>
      response_status (servicea_trace env r n) = StatusUnprocessableEntity
      \<and> SpanAddEvent n ''error_response'' StatusUnprocessableEntity
          \<in> set (before_write (servicea_trace env r n))
      \<and> SpanStart n (Context r) ''handle_cep_request''
          \<in> set (before_write (servicea_trace env r n))
      \<and> SpanEnd n \<notin> set (before_write (servicea_trace env r n)))
   \<and> (json_Decode_CepRequest env (Body r) = Inr req \<and> \<not> servicea_isValidCep (Cep req) \<longrightarrow>
      response_status (servicea_trace env r n) = StatusUnprocessableEntity
      \<and> SpanAddEvent n ''error_response'' StatusUnprocessableEntity
          \<in> set (before_write (servicea_trace env r n))
      \<and> SpanStart n (Context r) ''handle_cep_request''
          \<in> set (before_write (servicea_trace env r n))
      \<and> SpanEnd n \<notin> set (before_write (servicea_trace env r n)))
   \<and> (json_Decode_CepRequest env (Body r) = Inr req \<and> servicea_isValidCep (Cep req)
       \<and> fst (callServiceB env c1 (Cep req) w1) = Inl e \<longrightarrow>
      response_status (servicea_trace env r n) =
          (if errors_Is e ErrCepNotFound then StatusNotFound
           else if errors_Is e ErrInvalidCep then StatusUnprocessableEntity
           else StatusInternalServerError)
      \<and> SpanAddEvent n ''error_response''
            (if errors_Is e ErrCepNotFound then StatusNotFound
             else if errors_Is e ErrInvalidCep then StatusUnprocessableEntity
             else StatusInternalServerError)
          \<in> set (before_write (servicea_trace env r n))
      \<and> SpanStart n (Context r) ''handle_cep_request''
          \<in> set (before_write (servicea_trace env r n))
      \<and> SpanEnd n \<notin> set (before_write (servicea_trace env r n)))
   \<and> (json_Decode_CepRequest env (Body r) = Inr req \<and> servicea_isValidCep (Cep req)
       \<and> fst (callServiceB env c1 (Cep req) w1) = Inr bytes \<longrightarrow>
      response_status (servicea_trace env r n) = StatusOK
      \<and> SpanAddEvent n ''error_response'' code \<notin> set (servicea_trace env r n))
   \<and> (json_Decode_CepRequest env (Body r) = Inl err \<longrightarrow>
      response_status (serviceb_trace env r n) = StatusUnprocessableEntity
      \<and> SpanAddEvent n ''error_response'' StatusUnprocessableEntity
          \<in> set (before_write (serviceb_trace env r n))
      \<and> SpanStart n (Context r) ''handle_weather_request''
          \<in> set (before_write (serviceb_trace env r n))
      \<and> SpanEnd n \<notin> set (before_write (serviceb_trace env r n)))
   \<and> (json_Decode_CepRequest env (Body r) = Inr req \<and> \<not> serviceb_isValidCep (Cep req) \<longrightarrow>
      response_status (serviceb_trace env r n) = StatusUnprocessableEntity
      \<and> SpanAddEvent n ''error_response'' StatusUnprocessableEntity
          \<in> set (before_write (serviceb_trace env r n))
      \<and> SpanStart n (Context r) ''handle_weather_request''
          \<in> set (before_write (serviceb_trace env r n))
      \<and> SpanEnd n \<notin> set (before_write (serviceb_trace env r n)))
   \<and> (json_Decode_CepRequest env (Body r) = Inr req \<and> serviceb_isValidCep (Cep req)
       \<and> fst (getCepInfo env c2 (Cep req) w2) = Inl e \<longrightarrow>
      response_status (serviceb_trace env r n) =
          (if errors_Is e ErrCepNotFound then StatusNotFound else StatusInternalServerError)
      \<and> SpanAddEvent n ''error_response''
            (if errors_Is e ErrCepNotFound then StatusNotFound else StatusInternalServerError)
          \<in> set (before_write (serviceb_trace env r n))
      \<and> SpanStart n (Context r) ''handle_weather_request''
          \<in> set (before_write (serviceb_trace env r n))
      \<and> SpanEnd n \<notin> set (before_write (serviceb_trace env r n)))
   \<and> (json_Decode_CepRequest env (Body r) = Inr req \<and> serviceb_isValidCep (Cep req)
       \<and> fst (getCepInfo env c2 (Cep req) w2) = Inr location
       \<and> fst (getWeatherInfo env c3 location w3) = Inl e' \<longrightarrow>
      response_status (serviceb_trace env r n) = StatusInternalServerError
      \<and> SpanAddEvent n ''error_response'' StatusInternalServerError
          \<in> set (before_write (serviceb_trace env r n))
      \<and> SpanStart n (Context r) ''handle_weather_request''
          \<in> set (before_write (serviceb_trace env r n))
      \<and> SpanEnd n \<notin> set (before_write (serviceb_trace env r n)))
   \<and> (json_Decode_CepRequest env (Body r) = Inr req \<and> serviceb_isValidCep (Cep req)
       \<and> fst (getCepInfo env c2 (Cep req) w2) = Inr location
       \<and> fst (getWeatherInfo env c3 location w3) = Inr weather \<longrightarrow>
      response_status (serviceb_trace env r n) = StatusOK
      \<and> SpanAddEvent n ''error_response'' code \<notin> set (serviceb_trace env r n))"
proof -
  have a: "json_Decode_CepRequest env (Body r) = Inl err \<longrightarrow>
      response_status (servicea_trace env r n) = StatusUnprocessableEntity
      \<and> SpanAddEvent n ''error_response'' StatusUnprocessableEntity
          \<in> set (before_write (servicea_trace env r n))
      \<and> SpanStart n (Context r) ''handle_cep_request''
          \<in> set (before_write (servicea_trace env r n))
      \<and> SpanEnd n \<notin> set (before_write (servicea_trace env r n))"
    by (simp add: servicea_handler quiet_simps)
  have b: "json_Decode_CepRequest env (Body r) = Inr req \<and> \<not> servicea_isValidCep (Cep req) \<longrightarrow>
      response_status (servicea_trace env r n) = StatusUnprocessableEntity
      \<and> SpanAddEvent n ''error_response'' StatusUnprocessableEntity
          \<in> set (before_write (servicea_trace env r n))
      \<and> SpanStart n (Context r) ''handle_cep_request''
          \<in> set (before_write (servicea_trace env r n))
      \<and> SpanEnd n \<notin> set (before_write (servicea_trace env r n))"
    by (simp add: servicea_handler quiet_simps)
  have c: "json_Decode_CepRequest env (Body r) = Inr req \<and> servicea_isValidCep (Cep req)
       \<and> fst (callServiceB env c1 (Cep req) w1) = Inl e \<longrightarrow>
      response_status (servicea_trace env r n) =
          (if errors_Is e ErrCepNotFound then StatusNotFound
           else if errors_Is e ErrInvalidCep then StatusUnprocessableEntity
           else StatusInternalServerError)
      \<and> SpanAddEvent n ''error_response''
            (if errors_Is e ErrCepNotFound then StatusNotFound
             else if errors_Is e ErrInvalidCep then StatusUnprocessableEntity
             else StatusInternalServerError)
          \<in> set (before_write (servicea_trace env r n))
      \<and> SpanStart n (Context r) ''handle_cep_request''
          \<in> set (before_write (servicea_trace env r n))
      \<and> SpanEnd n \<notin> set (before_write (servicea_trace env r n))"
    by (simp add: servicea_handler quiet_simps callServiceB_fst)
  have d: "json_Decode_CepRequest env (Body r) = Inr req \<and> servicea_isValidCep (Cep req)
       \<and> fst (callServiceB env c1 (Cep req) w1) = Inr bytes \<longrightarrow>
      response_status (servicea_trace env r n) = StatusOK
      \<and> SpanAddEvent n ''error_response'' code \<notin> set (servicea_trace env r n)"
    by (simp add: servicea_handler quiet_simps callServiceB_fst)
  have e: "json_Decode_CepRequest env (Body r) = Inl err \<longrightarrow>
      response_status (serviceb_trace env r n) = StatusUnprocessableEntity
      \<and> SpanAddEvent n ''error_response'' StatusUnprocessableEntity
          \<in> set (before_write (serviceb_trace env r n))
      \<and> SpanStart n (Context r) ''handle_weather_request''
          \<in> set (before_write (serviceb_trace env r n))
      \<and> SpanEnd n \<notin> set (before_write (serviceb_trace env r n))"
    by (simp add: serviceb_handler quiet_simps)
  have f: "json_Decode_CepRequest env (Body r) = Inr req \<and> \<not> serviceb_isValidCep (Cep req) \<longrightarrow>
      response_status (serviceb_trace env r n) = StatusUnprocessableEntity
      \<and> SpanAddEvent n ''error_response'' StatusUnprocessableEntity
          \<in> set (before_write (serviceb_trace env r n))
      \<and> SpanStart n (Context r) ''handle_weather_request''
          \<in> set (before_write (serviceb_trace env r n))
      \<and> SpanEnd n \<notin> set (before_write (serviceb_trace env r n))"
    by (simp add: serviceb_handler quiet_simps)
  have g: "json_Decode_CepRequest env (Body r) = Inr req \<and> serviceb_isValidCep (Cep req)
       \<and> fst (getCepInfo env c2 (Cep req) w2) = Inl e \<longrightarrow>
      response_status (serviceb_trace env r n) =
          (if errors_Is e ErrCepNotFound then StatusNotFound else StatusInternalServerError)
      \<and> SpanAddEvent n ''error_response''
            (if errors_Is e ErrCepNotFound then StatusNotFound else StatusInternalServerError)
          \<in> set (before_write (serviceb_trace env r n))
      \<and> SpanStart n (Context r) ''handle_weather_request''
          \<in> set (before_write (serviceb_trace env r n))
      \<and> SpanEnd n \<notin> set (before_write (serviceb_trace env r n))"
    by (simp add: serviceb_handler quiet_simps getCepInfo_fst)
  have h: "json_Decode_CepRequest env (Body r) = Inr req \<and> serviceb_isValidCep (Cep req)
       \<and> fst (getCepInfo env c2 (Cep req) w2) = Inr location
       \<and> fst (getWeatherInfo env c3 location w3) = Inl e' \<longrightarrow>
      response_status (serviceb_trace env r n) = StatusInternalServerError
      \<and> SpanAddEvent n ''error_response'' StatusInternalServerError
          \<in> set (before_write (serviceb_trace env r n))
      \<and> SpanStart n (Context r) ''handle_weather_request''
          \<in> set (before_write (serviceb_trace env r n))
      \<and> SpanEnd n \<notin> set (before_write (serviceb_trace env r n))"
    by (simp add: serviceb_handler quiet_simps getCepInfo_fst getWeatherInfo_fst)
  have i: "json_Decode_CepRequest env (Body r) = Inr req \<and> serviceb_isValidCep (Cep req)
       \<and> fst (getCepInfo env c2 (Cep req) w2) = Inr location
       \<and> fst (getWeatherInfo env c3 location w3) = Inr weather \<longrightarrow>
      response_status (serviceb_trace env r n) = StatusOK
      \<and> SpanAddEvent n ''error_response'' code \<notin> set (serviceb_trace env r n)"
    by (simp add: serviceb_handler quiet_simps getCepInfo_fst getWeatherInfo_fst)
  from a b c d e f g h i show ?thesis by (intro conjI)
qed

theorem error_response_event_precedes_response_witness:
  "SpanAddEvent 0 ''error_response'' 422
      \<in> set (before_write
          (servicea_trace (example_env (example_reply 404 []))
            \<lparr>Context = None, Body = Stream [] (Some ''unexpected EOF'')\<rparr> 0))
   \<and> SpanAddEvent 0 ''error_response'' 404
      \<in> set (before_write
          (servicea_trace (example_env (example_reply 404 [])) (example_request ''01001000'') 0))
   \<and> SpanEnd 0
      \<notin> set (before_write
          (servicea_trace (example_env (example_reply 404 [])) (example_request ''01001000'') 0))
   \<and> SpanAddEvent 0 ''error_response'' 422
      \<in> set (before_write
          (serviceb_trace (example_env (example_providers ''Sao Paulo''))
            (example_request ''123'') 0))
   \<and> SpanAddEvent 0 ''error_response'' 500
      \<in> set (before_write
          (serviceb_trace (example_env example_weather_down)
            (example_request ''01001000'') 0))
   \<and> SpanEnd 0
      \<notin> set (before_write
          (serviceb_trace (example_env example_weather_down)
            (example_request ''01001000'') 0))"
proof -
  have 1: "SpanAddEvent 0 ''error_response'' 422
      \<in> set (before_write
          (servicea_trace (example_env (example_reply 404 []))
            \<lparr>Context = None, Body = Stream [] (Some ''unexpected EOF'')\<rparr> 0))"
    using error_response_event_precedes_response
        [where env = "example_env (example_reply 404 [])"
          and r = "\<lparr>Context = None, Body = Stream [] (Some ''unexpected EOF'')\<rparr>"
          and err = "''unexpected EOF''" and n = 0]
    by (simp add: example_env_def)
  have 2: "SpanAddEvent 0 ''error_response'' 404
      \<in> set (before_write
          (servicea_trace (example_env (example_reply 404 [])) (example_request ''01001000'') 0))
    \<and> SpanEnd 0
      \<notin> set (before_write
          (servicea_trace (example_env (example_reply 404 [])) (example_request ''01001000'') 0))"
    using error_response_event_precedes_response
        [where env = "example_env (example_reply 404 [])"
          and r = "example_request ''01001000''" and req = "\<lparr>Cep = ''01001000''\<rparr>"
          and ?c1.0 = None and ?w1.0 = "new_world 0" and e = ErrCepNotFound and n = 0]
    by (simp add: example_defs example_code_valid result_eqs)
  have 3: "SpanAddEvent 0 ''error_response'' 422
      \<in> set (before_write
          (serviceb_trace (example_env (example_providers ''Sao Paulo''))
            (example_request ''123'') 0))"
    using error_response_event_precedes_response
        [where env = "example_env (example_providers ''Sao Paulo'')"
          and r = "example_request ''123''" and req = "\<lparr>Cep = ''123''\<rparr>" and n = 0]
    by (simp add: example_env_def example_request_def example_code_valid)
  have 4: "SpanAddEvent 0 ''error_response'' 500
      \<in> set (before_write
          (serviceb_trace (example_env example_weather_down)
            (example_request ''01001000'') 0))
    \<and> SpanEnd 0
      \<notin> set (before_write
          (serviceb_trace (example_env example_weather_down)
            (example_request ''01001000'') 0))"
    using error_response_event_precedes_response
        [where env = "example_env example_weather_down"
          and r = "example_request ''01001000''" and req = "\<lparr>Cep = ''01001000''\<rparr>"
          and ?c2.0 = None and ?w2.0 = "new_world 0" and location = "''Sao Paulo''"
          and ?c3.0 = None and ?w3.0 = "new_world 0"
          and e' = "Errorf ''unexpected status code from Weather API: %d, body: %s'' None"
          and n = 0]
    by (simp add: example_defs example_code_valid result_eqs example_urls_differ)
  from 1 2 3 4 show ?thesis by blast
qed

section \<open>serviceb: a locality that is empty\<close>

text \<open>
  Claim C10. When the postal-code provider answers 200 with a body that decodes to a
  record whose \<open>Erro\<close> flag is not set, \<^verbatim>\<open>getCepInfo\<close> succeeds with the \<open>Localidade\<close>
  field as it is, the empty string included. The handler then goes on to
  \<^verbatim>\<open>getWeatherInfo\<close> with that city: its span is started, the status of the response is
  the one the weather step decides (200 or 500), and, when the weather request can be
  built, it is sent to the URL that holds the escaped city.
\<close>

theorem unflagged_record_proceeds_to_weather:
  assumes "http_NewRequest env ''GET'' (viacep_url cep) = None"
      and "client_Do env ''GET'' (viacep_url cep) [] = Inr resp"
      and "StatusCode resp = StatusOK"
      and "io_ReadAll (RespBody resp) = Inr body"
      and "json_Unmarshal_ViaCepResponse env body = Inr cepInfo"
      and "\<not> Erro cepInfo"
  shows "fst (getCepInfo env c cep w) = Inr (Localidade cepInfo)
     \<and> (json_Decode_CepRequest env (Body r) = Inr req \<and> Cep req = cep
        \<and> serviceb_isValidCep cep \<longrightarrow>
          span_names (serviceb_trace env r n) =
            [''handle_weather_request'', ''get_cep_info'', ''get_weather_info'']
          \<and> response_status (serviceb_trace env r n) =
              (case fst (getWeatherInfo env c2 (Localidade cepInfo) w2) of
                 Inl e \<Rightarrow> StatusInternalServerError | Inr weather \<Rightarrow> StatusOK)
          \<and> (http_NewRequest env ''GET''
                (weather_url (weatherApiKey env) (url_QueryEscape env (Localidade cepInfo)))
                = None \<longrightarrow>
              client_calls (serviceb_trace env r n) =
                [viacep_url cep,
                 weather_url (weatherApiKey env) (url_QueryEscape env (Localidade cepInfo))]))"
proof -
  have loc: "getCepInfo_result env cep = Inr (Localidade cepInfo)"
    using assms by (simp add: getCepInfo_result_eq getCepInfo_read_def)
  show ?thesis
    using loc assms(1)
    by (auto simp: serviceb_handler quiet_simps getCepInfo_fst getWeatherInfo_fst
        getWeatherInfo_client_calls_sent getCepInfo_client_calls_sent split: sum.splits)
qed

theorem unflagged_record_proceeds_to_weather_witness:
  "fst (getCepInfo (example_env (example_providers [])) None ''01001000'' (new_world 0))
      = Inr []
   \<and> span_names (serviceb_trace (example_env (example_providers []))
        (example_request ''01001000'') 0) =
          [''handle_weather_request'', ''get_cep_info'', ''get_weather_info'']
   \<and> response_status (serviceb_trace (example_env (example_providers []))
        (example_request ''01001000'') 0) = 200
   \<and> client_calls (serviceb_trace (example_env (example_providers []))
        (example_request ''01001000'') 0) =
          [viacep_url ''01001000'', weather_url ''key'' []]"
proof -
  have hyps:
    "http_NewRequest (example_env (example_providers [])) ''GET'' (viacep_url ''01001000'')
        = None"
    "client_Do (example_env (example_providers [])) ''GET'' (viacep_url ''01001000'') []
        = Inr \<lparr>StatusCode = 200, RespBody = Stream [] None\<rparr>"
    "StatusCode \<lparr>StatusCode = 200, RespBody = Stream [] None\<rparr> = StatusOK"
    "io_ReadAll (RespBody \<lparr>StatusCode = 200, RespBody = Stream [] None\<rparr>) = Inr []"
    "json_Unmarshal_ViaCepResponse (example_env (example_providers [])) []
        = Inr \<lparr>ViaCepResponse.Cep = [], Logradouro = [], Complemento = [], Bairro = [],
               Localidade = [], Uf = [], Ibge = [], Gia = [], Ddd = [], Siafi = [],
               Erro = False\<rparr>"
    "\<not> Erro \<lparr>ViaCepResponse.Cep = [], Logradouro = [], Complemento = [], Bairro = [],
               Localidade = [], Uf = [], Ibge = [], Gia = [], Ddd = [], Siafi = [],
               Erro = False\<rparr>"
    by (simp_all add: example_defs)
  have weather:
    "fst (getWeatherInfo (example_env (example_providers [])) None [] (new_world 0))
        = Inr \<lparr>Location_Name = ''current'', Current_TempC = 57 / 2\<rparr>"
    by (simp add: result_eqs example_defs example_urls_differ)
  have request:
    "json_Decode_CepRequest (example_env (example_providers []))
        (Body (example_request ''01001000'')) = Inr \<lparr>Cep = ''01001000''\<rparr>"
    "http_NewRequest (example_env (example_providers [])) ''GET''
        (weather_url (weatherApiKey (example_env (example_providers [])))
          (url_QueryEscape (example_env (example_providers [])) [])) = None"
    "weatherApiKey (example_env (example_providers [])) = ''key''"
    "url_QueryEscape (example_env (example_providers [])) [] = []"
    by (simp_all add: example_defs)
  show ?thesis
    using unflagged_record_proceeds_to_weather
        [OF hyps, where c = None and w = "new_world 0"
          and r = "example_request ''01001000''" and req = "\<lparr>Cep = ''01001000''\<rparr>"
          and n = 0 and ?c2.0 = None and ?w2.0 = "new_world 0"]
      weather request example_code_valid(2)
    by simp
qed

end
